theory Spec2Isabelle
  imports Complex_Main
begin

section \<open>Rate-limit controller (core/lib/rate-limit.ts)\<close>

text \<open>
  Timestamps and durations are milliseconds as returned by \<^verbatim>\<open>Date.now()\<close>; they are
  modelled as integers. Every method that reads the clock takes the value read as an
  explicit argument \<open>now\<close>. The \<^verbatim>\<open>log\<close> callback handed to the constructor is modelled
  by the list of calls made to it (most recent last); each message text of the source is
  represented by one constructor carrying the values interpolated into it.
\<close>

datatype RateLimitState = Normal | Degraded | Paused

datatype RateLimitDecision = Run | Skip | PausedDecision

datatype log_level = Info | Warn

datatype rl_message =
    EntriesSuppressedMsg "string option"
  | EntriesAllowedMsg
  | PauseEndedMsg
  | ThrottledMsg "string option" int
  | PausedMsg "string option" int
  | PauseExtendedMsg "string option" int
  | RecoveredMsg

record RateLimitController =
  state :: RateLimitState
  pausedUntil :: "int option"
  lastCycleAt :: int
  lastRateLimitAt :: int
  pauseMs :: int
  recoveryMs :: int
  entriesSuppressed :: bool
  baseInterval :: int
  logCalls :: "(log_level \<times> rl_message) list"

definition DEFAULT_PAUSE_MS :: int where
  "DEFAULT_PAUSE_MS = 30000"

definition DEFAULT_RECOVERY_MS :: int where
  "DEFAULT_RECOVERY_MS = 60000"

text \<open>The constructor: \<open>options?.pauseMs ?? DEFAULT_PAUSE_MS\<close> and likewise for recovery.\<close>

definition newRateLimitController ::
  "int \<Rightarrow> int option \<Rightarrow> int option \<Rightarrow> RateLimitController" where
  "newRateLimitController base optPause optRecovery =
     \<lparr> state = Normal, pausedUntil = None, lastCycleAt = 0, lastRateLimitAt = 0,
       pauseMs = (case optPause of Some p \<Rightarrow> p | None \<Rightarrow> DEFAULT_PAUSE_MS),
       recoveryMs = (case optRecovery of Some r \<Rightarrow> r | None \<Rightarrow> DEFAULT_RECOVERY_MS),
       entriesSuppressed = False, baseInterval = base, logCalls = [] \<rparr>"

definition logCall :: "log_level \<Rightarrow> rl_message \<Rightarrow> RateLimitController \<Rightarrow> RateLimitController" where
  "logCall lvl msg c = c\<lparr>logCalls := logCalls c @ [(lvl, msg)]\<rparr>"

definition shouldBlockEntries :: "RateLimitController \<Rightarrow> bool" where
  "shouldBlockEntries c = (entriesSuppressed c \<or> state c = Paused)"

definition suppressEntries :: "string option \<Rightarrow> RateLimitController \<Rightarrow> RateLimitController" where
  "suppressEntries source c =
     (if entriesSuppressed c then c
      else logCall Info (EntriesSuppressedMsg source) (c\<lparr>entriesSuppressed := True\<rparr>))"

definition allowEntries :: "RateLimitController \<Rightarrow> RateLimitController" where
  "allowEntries c =
     (if \<not> entriesSuppressed c then c
      else logCall Info EntriesAllowedMsg (c\<lparr>entriesSuppressed := False\<rparr>))"

definition currentInterval :: "RateLimitController \<Rightarrow> int" where
  "currentInterval c =
     (if state c = Degraded then baseInterval c * 2
      else if state c = Paused then baseInterval c * 2
      else baseInterval c)"

text \<open>The tail of \<open>beforeCycle\<close> after the paused branch: the cadence check.\<close>

definition cadenceCheck :: "int \<Rightarrow> RateLimitController \<Rightarrow> RateLimitDecision \<times> RateLimitController" where
  "cadenceCheck now c =
     (if now - lastCycleAt c < currentInterval c then (Skip, c)
      else (Run, c\<lparr>lastCycleAt := now\<rparr>))"

definition beforeCycle :: "int \<Rightarrow> RateLimitController \<Rightarrow> RateLimitDecision \<times> RateLimitController" where
  "beforeCycle now c =
     (if state c = Paused then
        (case pausedUntil c of
           Some p \<Rightarrow>
             if now \<ge> p then
               cadenceCheck now (logCall Info PauseEndedMsg (c\<lparr>state := Degraded, pausedUntil := None\<rparr>))
             else (PausedDecision, c\<lparr>lastCycleAt := now\<rparr>)
         | None \<Rightarrow> (PausedDecision, c\<lparr>lastCycleAt := now\<rparr>))
      else cadenceCheck now c)"

definition registerRateLimit :: "string option \<Rightarrow> int \<Rightarrow> RateLimitController \<Rightarrow> RateLimitController" where
  "registerRateLimit source now c0 =
     (let c = c0\<lparr>lastRateLimitAt := now\<rparr> in
      if state c = Normal then
        (let c1 = c\<lparr>state := Degraded\<rparr>;
             c2 = logCall Warn (ThrottledMsg source (currentInterval c1)) c1;
             c3 = c2\<lparr>lastCycleAt := now\<rparr>
         in suppressEntries source c3)
      else if state c = Degraded then
        (let c1 = c\<lparr>state := Paused, pausedUntil := Some (now + pauseMs c)\<rparr>;
             c2 = logCall Warn (PausedMsg source (pauseMs c)) c1
         in suppressEntries source c2)
      else
        (let c1 = c\<lparr>pausedUntil := Some (now + pauseMs c)\<rparr>;
             c2 = logCall Warn (PauseExtendedMsg source (pauseMs c)) c1
         in suppressEntries source c2))"

text \<open>
  \<open>onCycleComplete\<close> reads the clock only inside its first branch; the value it would
  read is the argument \<open>now\<close>.
\<close>

definition onCycleComplete :: "bool \<Rightarrow> int \<Rightarrow> RateLimitController \<Rightarrow> RateLimitController" where
  "onCycleComplete hadRateLimit now c =
     (if hadRateLimit then c
      else
        (let c1 =
           (if state c = Degraded \<and> lastRateLimitAt c > 0 then
              (if now - lastRateLimitAt c \<ge> recoveryMs c then
                 (allowEntries (logCall Info RecoveredMsg (c\<lparr>state := Normal\<rparr>)))\<lparr>lastRateLimitAt := 0\<rparr>
               else c)
            else c)
         in if state c1 = Normal \<and> entriesSuppressed c1 \<and> lastRateLimitAt c1 = 0
            then allowEntries c1 else c1))"

text \<open>The three public mutating operations, and the controllers visited by a sequence of them.\<close>

datatype rl_op =
    BeforeCycle int
  | RegisterRateLimit "string option" int
  | OnCycleComplete bool int

fun rl_step :: "rl_op \<Rightarrow> RateLimitController \<Rightarrow> RateLimitController" where
  "rl_step (BeforeCycle now) c = snd (beforeCycle now c)"
| "rl_step (RegisterRateLimit source now) c = registerRateLimit source now c"
| "rl_step (OnCycleComplete hadRateLimit now) c = onCycleComplete hadRateLimit now c"

fun rl_run :: "RateLimitController \<Rightarrow> rl_op list \<Rightarrow> RateLimitController list" where
  "rl_run c [] = [c]"
| "rl_run c (opn # ops) = c # rl_run (rl_step opn c) ops"

fun paused_then_normal :: "RateLimitState list \<Rightarrow> bool" where
  "paused_then_normal (s # t # rest) = ((s = Paused \<and> t = Normal) \<or> paused_then_normal (t # rest))"
| "paused_then_normal _ = False"


section \<open>Trading statistics (core/trading-stats.ts)\<close>

text \<open>
  JavaScript numbers that carry prices, quantities, fees and PnL are modelled as real
  numbers. Comparisons of two numbers are the same in both. Sums, differences, halvings
  and the statistics are taken exactly; the quotient and the products on which the
  depth-imbalance engine decides are taken through the arithmetic of the number type
  (see the section on double precision). Counters are natural numbers.
\<close>

record TradingStats =
  makerOrderCount :: nat
  takerOrderCount :: nat
  totalFees :: real
  totalPnl :: real
  totalVolume :: real
  pointsRate :: real
  startTime :: int

record HourlyStats = TradingStats +
  hourStartTime :: int

record TradingStatsSummary =
  total :: TradingStats
  hourly :: HourlyStats

definition createEmptyStats :: "int \<Rightarrow> TradingStats" where
  "createEmptyStats t =
     \<lparr> makerOrderCount = 0, takerOrderCount = 0, totalFees = 0, totalPnl = 0,
       totalVolume = 0, pointsRate = 0, startTime = t \<rparr>"

definition createEmptyHourlyStats :: "int \<Rightarrow> HourlyStats" where
  "createEmptyHourlyStats t =
     \<lparr> makerOrderCount = 0, takerOrderCount = 0, totalFees = 0, totalPnl = 0,
       totalVolume = 0, pointsRate = 0, startTime = t, hourStartTime = t \<rparr>"

text \<open>
  The source holds two versions of this module, each with its own \<open>calculatePointsRate\<close>.
  The first reads the team bonus from the environment (\<open>getTeamBonusRate\<close>, default
  \<open>"1.1"\<close>); the value read is the argument \<open>teamBonus\<close>.
\<close>

definition DEFAULT_TEAM_BONUS_RATE :: real where
  "DEFAULT_TEAM_BONUS_RATE = 11 / 10"

definition calculatePointsRate_teamBonus :: "real \<Rightarrow> real \<Rightarrow> real \<Rightarrow> real \<Rightarrow> real" where
  "calculatePointsRate_teamBonus teamBonus fees pnl volume =
     (if volume \<le> 0 then 0
      else
        (let numerator = fees - pnl;
             denominator = (volume / 2) * teamBonus
         in (numerator / denominator) * 10000))"

definition calculatePointsRate_unadjusted :: "real \<Rightarrow> real \<Rightarrow> real \<Rightarrow> real" where
  "calculatePointsRate_unadjusted fees pnl volume =
     (if volume \<le> 0 then 0
      else
        (let loss = fees + (if pnl < 0 then \<bar>pnl\<bar> else 0)
         in (loss / volume) * 10000))"

record TradeData =
  isMaker :: bool
  commission :: real
  realizedPnl :: real
  volume :: real
  price :: real
  qty :: real
  tradeId :: "nat option"
  timestamp :: int

text \<open>
  \<open>updateStatsWithRealTrade\<close> is the same text in both versions of the module and differs
  only in the \<open>calculatePointsRate\<close> it calls, which is the argument \<open>calc\<close>. It is applied
  to the total and to the hourly record alike.
\<close>

definition updateStatsWithRealTrade ::
  "(real \<Rightarrow> real \<Rightarrow> real \<Rightarrow> real) \<Rightarrow> 'a TradingStats_scheme \<Rightarrow> TradeData \<Rightarrow> 'a TradingStats_scheme" where
  "updateStatsWithRealTrade calc stats tradeData =
     (let s1 = (if isMaker tradeData
                then stats\<lparr>makerOrderCount := makerOrderCount stats + 1\<rparr>
                else stats\<lparr>takerOrderCount := takerOrderCount stats + 1\<rparr>);
          s2 = s1\<lparr>totalFees := totalFees s1 + commission tradeData\<rparr>;
          s3 = s2\<lparr>totalPnl := totalPnl s2 + realizedPnl tradeData\<rparr>;
          s4 = s3\<lparr>totalVolume := totalVolume s3 + volume tradeData\<rparr>
      in s4\<lparr>pointsRate := calc (totalFees s4) (totalPnl s4) (totalVolume s4)\<rparr>)"

definition shouldResetHourlyStats :: "int \<Rightarrow> HourlyStats \<Rightarrow> bool" where
  "shouldResetHourlyStats now hourlyStats =
     (let oneHour = 60 * 60 * 1000 in now - hourStartTime hourlyStats \<ge> oneHour)"

text \<open>
  \<open>resetHourlyStats\<close> (the version that exports): the first component is the record after
  the reset, the second is \<open>statsToLog\<close>, the copy taken before the reset and handed to
  \<open>tradingStatsLogger.logHourlyStats\<close>.
\<close>

definition resetHourlyStats :: "int \<Rightarrow> HourlyStats \<Rightarrow> HourlyStats \<times> HourlyStats" where
  "resetHourlyStats now hourlyStats =
     (let statsToLog = hourlyStats
      in (hourlyStats\<lparr> makerOrderCount := 0, takerOrderCount := 0, totalFees := 0,
                        totalPnl := 0, totalVolume := 0, pointsRate := 0,
                        hourStartTime := now \<rparr>,
          statsToLog))"

section \<open>State shared by the strategy engines\<close>

datatype OrderSide = BUY | SELL

datatype PositionSide = LONG | SHORT

datatype OrderType = MARKET | LIMIT

record CommonConfig =
  symbol :: string
  tradeAmount :: real
  lossLimit :: real
  refreshIntervalMs :: int
  maxLogEntries :: nat
  maxCloseSlippagePct :: real

record MakerConfig = CommonConfig +
  priceChaseThreshold :: real
  bidOffset :: real
  askOffset :: real
  priceTick :: real

record DepthImbalanceConfig = CommonConfig +
  minDepthQty :: real
  imbalanceRatio :: real
  closeBalanceRatio :: real

record PositionSnapshot =
  positionAmt :: real
  entryPrice :: real
  markPrice :: "real option"

record TradeExecutionData =
  exSymbol :: string
  exOrderId :: nat
  exTradeId :: nat
  exPrice :: real
  exQty :: real
  exQuoteQty :: real
  exCommission :: real
  exCommissionAsset :: string
  exIsMaker :: bool
  exRealizedPnl :: real
  exSide :: string
  exTimestamp :: int

text \<open>
  Field names are those of the source. Where two interfaces of the source use the same
  field name, the fields of one of them carry a prefix: \<open>ex\<close> in
  \<open>TradeExecutionData\<close> (next to \<open>TradeData\<close>), \<open>open\<close> in \<open>AsterOrder\<close> and
  \<open>orderPrice\<close> for the price of a \<open>DesiredOrder\<close>.
\<close>

text \<open>
  Errors are opaque values that the three classifiers of \<open>utils/errors.ts\<close> inspect; an
  error raised by the exchange is represented by the three answers. The two errors that
  \<open>marketEntry\<close> creates itself carry messages that no classifier recognises.
\<close>

datatype error =
    ExchangeError bool bool bool
  | BelowMinimumError
  | AttemptsExhaustedError

fun isUnknownOrderError :: "error \<Rightarrow> bool" where
  "isUnknownOrderError (ExchangeError u r m) = u"
| "isUnknownOrderError _ = False"

fun isRateLimitError :: "error \<Rightarrow> bool" where
  "isRateLimitError (ExchangeError u r m) = r"
| "isRateLimitError _ = False"

fun isInsufficientMarginError :: "error \<Rightarrow> bool" where
  "isInsufficientMarginError (ExchangeError u r m) = m"
| "isInsufficientMarginError _ = False"

text \<open>
  Requests that leave the engine: \<open>exchange.createOrder\<close> with symbol, side, type and
  quantity, and the coordinator's guarded \<open>marketClose\<close> with side, quantity, mark price,
  expected price and maximal deviation. The answer to a request (an order id, or the
  error thrown) is given by an oracle that sees how many requests were made before it.
\<close>

datatype exchange_call =
    CreateOrder string OrderSide OrderType real
  | MarketClose OrderSide real "real option" "real option" real

type_synonym exchange = "nat \<Rightarrow> exchange_call \<Rightarrow> error + nat"

datatype log_detail =
    RealTradeMsg bool real real real real real
  | ImbalanceDetectedMsg real real real PositionSide
  | EntryOrderGoneMsg
  | EntryFailedMsg error
  | ExitSignalMsg real real real
  | StopLossMsg real real
  | EntryOrderMsg OrderSide real nat
  | BelowMinimumMsg real real
  | MarginRetryMsg nat real real real real
  | ExitOrderGoneMsg
  | ExitFailedMsg error

text \<open>
  The fields every engine has. \<open>tradeLog\<close> lists the entries pushed (type and detail, most
  recent last; the detail text is represented by a constructor with the values it
  mentions, and the bound \<open>maxLogEntries\<close> on the number of entries kept is not
  modelled), \<open>csvExports\<close> the records handed to the CSV logger, \<open>exchangeCalls\<close> the
  requests issued, and \<open>updatesEmitted\<close> counts the snapshots sent to the listeners.
  The calls of the rate-limit controller to its log callback are kept in the controller.
  Chat notifications are best-effort side channels and are left out.
\<close>

record 'c EngineBase =
  config :: 'c
  rateLimit :: RateLimitController
  tradingStats :: TradingStatsSummary
  tradeLog :: "(string \<times> log_detail) list"
  csvExports :: "HourlyStats list"
  exchangeCalls :: "exchange_call list"
  updatesEmitted :: nat

definition EPS :: real where
  "EPS = 1 / 100000"

definition pushLog :: "string \<Rightarrow> log_detail \<Rightarrow> ('c, 'm) EngineBase_scheme \<Rightarrow> ('c, 'm) EngineBase_scheme" where
  "pushLog ty detail e = e\<lparr>tradeLog := tradeLog e @ [(ty, detail)]\<rparr>"

definition callExchange ::
  "exchange \<Rightarrow> exchange_call \<Rightarrow> ('c, 'm) EngineBase_scheme \<Rightarrow> (error + nat) \<times> ('c, 'm) EngineBase_scheme" where
  "callExchange ex c e = (ex (length (exchangeCalls e)) c, e\<lparr>exchangeCalls := exchangeCalls e @ [c]\<rparr>)"

text \<open>
  The block that opens \<open>getSnapshot\<close> and \<open>buildSnapshot\<close> in every engine: the hourly
  record is reset when due. \<open>now\<close> is the clock read by \<open>shouldResetHourlyStats\<close>,
  \<open>nowReset\<close> the one read by \<open>resetHourlyStats\<close>.
\<close>

definition resetHourlyIfDue :: "int \<Rightarrow> int \<Rightarrow> ('c, 'm) EngineBase_scheme \<Rightarrow> ('c, 'm) EngineBase_scheme" where
  "resetHourlyIfDue now nowReset e =
     (if shouldResetHourlyStats now (hourly (tradingStats e)) then
        (case resetHourlyStats nowReset (hourly (tradingStats e)) of
           (h, statsToLog) \<Rightarrow>
             e\<lparr> tradingStats := (tradingStats e)\<lparr>hourly := h\<rparr>,
                csvExports := csvExports e @ [statsToLog] \<rparr>)
      else e)"

definition emitUpdate :: "int \<Rightarrow> int \<Rightarrow> ('c, 'm) EngineBase_scheme \<Rightarrow> ('c, 'm) EngineBase_scheme" where
  "emitUpdate now nowReset e =
     (let e1 = resetHourlyIfDue now nowReset e
      in e1\<lparr>updatesEmitted := updatesEmitted e1 + 1\<rparr>)"

definition handleRealTrade ::
  "(real \<Rightarrow> real \<Rightarrow> real \<Rightarrow> real) \<Rightarrow> int \<Rightarrow> int \<Rightarrow> TradeExecutionData \<Rightarrow>
   ('c, 'm) EngineBase_scheme \<Rightarrow> ('c, 'm) EngineBase_scheme" where
  "handleRealTrade calc now nowReset tradeData e =
     (let trade = \<lparr> isMaker = exIsMaker tradeData, commission = \<bar>exCommission tradeData\<bar>,
                     realizedPnl = exRealizedPnl tradeData, volume = exQuoteQty tradeData,
                     price = exPrice tradeData, qty = exQty tradeData,
                     tradeId = Some (exTradeId tradeData), timestamp = exTimestamp tradeData \<rparr>;
          ts1 = (tradingStats e)\<lparr>total := updateStatsWithRealTrade calc (total (tradingStats e)) trade\<rparr>;
          ts2 = ts1\<lparr>hourly := updateStatsWithRealTrade calc (hourly ts1) trade\<rparr>;
          e1 = e\<lparr>tradingStats := ts2\<rparr>;
          e2 = pushLog ''trade''
                 (RealTradeMsg (exIsMaker tradeData) (price trade) (qty trade) (volume trade)
                    (commission trade) (realizedPnl trade)) e1
      in emitUpdate now nowReset e2)"

text \<open>The callback registered with \<open>exchange.watchTrades\<close> in \<open>bootstrap\<close>.\<close>

definition watchTradesHandler ::
  "(real \<Rightarrow> real \<Rightarrow> real \<Rightarrow> real) \<Rightarrow> int \<Rightarrow> int \<Rightarrow> TradeExecutionData \<Rightarrow>
   ('z CommonConfig_scheme, 'm) EngineBase_scheme \<Rightarrow> ('z CommonConfig_scheme, 'm) EngineBase_scheme" where
  "watchTradesHandler calc now nowReset tradeData e =
     (if exSymbol tradeData = symbol (config e) then handleRealTrade calc now nowReset tradeData e
      else e)"


section \<open>Symmetric maker engine (core/maker-engine.ts)\<close>

record DesiredOrder =
  side :: OrderSide
  amount :: real
  reduceOnly :: bool
  orderPrice :: real

record MakerEngine = "MakerConfig EngineBase" +
  desiredOrders :: "DesiredOrder list"
  entryPricePendingLogged :: bool


text \<open>
  \<open>getSnapshot\<close>: the reset block, then the projection. Of the snapshot only the fields
  that are copies of engine state are kept; the others are computed by helpers outside
  the sources at hand.
\<close>

record MakerEngineSnapshot =
  snapshotSymbol :: string
  snapshotDesiredOrders :: "DesiredOrder list"
  snapshotTradingStats :: TradingStatsSummary

definition getSnapshot :: "int \<Rightarrow> int \<Rightarrow> MakerEngine \<Rightarrow> MakerEngineSnapshot \<times> MakerEngine" where
  "getSnapshot now nowReset e =
     (let e1 = resetHourlyIfDue now nowReset e
      in (\<lparr> snapshotSymbol = symbol (config e1),
            snapshotDesiredOrders = desiredOrders e1,
            snapshotTradingStats = tradingStats e1 \<rparr>,
          e1))"

section \<open>Double-precision arithmetic\<close>

text \<open>
  A JavaScript number is an IEEE 754 double. The division and the multiplication of two
  numbers return the exact result rounded to the nearest double, ties to the even
  significand. The functions that use them take the two operations as a record
  \<open>ops\<close>, so that what is proved of them holds for the operations of the machine.
\<close>

record NumberOps =
  numDiv :: "real \<Rightarrow> real \<Rightarrow> real"
  numMul :: "real \<Rightarrow> real \<Rightarrow> real"

text \<open>
  The rounding itself, for results in the normal range of the format (no overflow to
  infinity, no subnormal results): \<open>binaryExponent x\<close> is the \<open>e\<close> with
  \<open>2^e \<le> x < 2^(e+1)\<close> for a positive \<open>x\<close>, \<open>ulpAt e\<close> is the distance \<open>2^(e-52)\<close> between
  neighbouring doubles there, and \<open>roundToDouble\<close> takes the nearest multiple of it.
\<close>

function bitLength :: "int \<Rightarrow> nat" where
  "bitLength n = (if n \<le> 0 then 0 else Suc (bitLength (n div 2)))"
  by pat_completeness auto
termination
  by (relation "measure nat") auto

definition roundHalfEven :: "real \<Rightarrow> int" where
  "roundHalfEven q =
     (let n = \<lfloor>q\<rfloor>; r = q - of_int n
      in if r < 1 / 2 then n else if 1 / 2 < r then n + 1 else if even n then n else n + 1)"

definition binaryExponent :: "real \<Rightarrow> int" where
  "binaryExponent x =
     (if 1 \<le> x then int (bitLength \<lfloor>x\<rfloor>) - 1
      else - int (bitLength (\<lceil>1 / x\<rceil> - 1)))"

definition ulpAt :: "int \<Rightarrow> real" where
  "ulpAt e = (if 52 \<le> e then 2 ^ nat (e - 52) else 1 / 2 ^ nat (52 - e))"

definition roundToDouble :: "real \<Rightarrow> real" where
  "roundToDouble x =
     (if x = 0 then 0
      else if x < 0 then
        - (of_int (roundHalfEven (- x / ulpAt (binaryExponent (- x)))) * ulpAt (binaryExponent (- x)))
      else of_int (roundHalfEven (x / ulpAt (binaryExponent x))) * ulpAt (binaryExponent x))"

definition doubleDiv :: "real \<Rightarrow> real \<Rightarrow> real" where
  "doubleDiv a b = roundToDouble (a / b)"

definition doubleMul :: "real \<Rightarrow> real \<Rightarrow> real" where
  "doubleMul a b = roundToDouble (a * b)"

definition doubleOps :: NumberOps where
  "doubleOps = \<lparr> numDiv = doubleDiv, numMul = doubleMul \<rparr>"

section \<open>Depth-imbalance engine (core/depth-imbalance-engine.ts)\<close>

text \<open>
  The engine exists in two versions. They share \<open>tick\<close>, \<open>checkEntryCondition\<close>,
  \<open>checkExitCondition\<close> and \<open>marketExit\<close> word for word and differ in \<open>marketEntry\<close>
  and \<open>checkStopLoss\<close>: the second version retries an entry with half the amount when
  margin is insufficient and keeps a current trade amount and a current loss limit. The
  record has the fields of the second version; the first version does not touch the last
  four.
\<close>

record DepthImbalanceEngine = "DepthImbalanceConfig EngineBase" +
  entryBidQty :: real
  entryAskQty :: real
  positionSide :: "PositionSide option"
  currentTradeAmount :: real
  minTradeAmount :: real
  maxRetryAttempts :: nat
  currentLossLimit :: real

text \<open>The constructor of the second version, as far as it sets the fields above.\<close>

definition newDepthImbalanceEngine :: "DepthImbalanceConfig \<Rightarrow> int \<Rightarrow> DepthImbalanceEngine" where
  "newDepthImbalanceEngine cfg now =
     \<lparr> config = cfg,
       rateLimit = newRateLimitController (refreshIntervalMs cfg) None None,
       tradingStats = \<lparr> total = createEmptyStats now, hourly = createEmptyHourlyStats now \<rparr>,
       tradeLog = [], csvExports = [], exchangeCalls = [], updatesEmitted = 0,
       entryBidQty = 0, entryAskQty = 0, positionSide = None,
       currentTradeAmount = tradeAmount cfg,
       minTradeAmount = tradeAmount cfg / 128,
       maxRetryAttempts = 10,
       currentLossLimit = lossLimit cfg \<rparr>"

record AsterDepth =
  bids :: "(real \<times> real) list"
  asks :: "(real \<times> real) list"

text \<open>\<open>Number(levels?.[0]?.[1] ?? 0)\<close>: the quantity of the first level, 0 when there is none.\<close>

definition firstLevelQty :: "(real \<times> real) list \<Rightarrow> real" where
  "firstLevelQty levels = (case levels of [] \<Rightarrow> 0 | l # _ \<Rightarrow> snd l)"

text \<open>\<open>Number(p) || null\<close> for a price that may be \<open>null\<close>.\<close>

definition expectedPriceOf :: "real option \<Rightarrow> real option" where
  "expectedPriceOf p = (case p of None \<Rightarrow> None | Some x \<Rightarrow> if x = 0 then None else Some x)"

definition marketExit ::
  "exchange \<Rightarrow> PositionSnapshot \<Rightarrow> real option \<Rightarrow> real option \<Rightarrow> DepthImbalanceEngine \<Rightarrow> DepthImbalanceEngine" where
  "marketExit ex position topBid topAsk e =
     (let absPosition = \<bar>positionAmt position\<bar> in
      if absPosition < EPS then e
      else
        (let sd = (if positionAmt position > 0 then SELL else BUY)
         in case callExchange ex
                   (MarketClose sd absPosition (markPrice position)
                      (expectedPriceOf (if sd = SELL then topBid else topAsk))
                      (maxCloseSlippagePct (config e))) e of
              (Inr _, e1) \<Rightarrow> e1\<lparr>positionSide := None, entryBidQty := 0, entryAskQty := 0\<rparr>
            | (Inl err, e1) \<Rightarrow>
                (if isUnknownOrderError err then pushLog ''order'' ExitOrderGoneMsg e1
                 else pushLog ''error'' (ExitFailedMsg err) e1)))"

text \<open>
  \<open>checkStopLoss\<close>. \<open>computePositionPnl\<close> of \<open>utils/pnl\<close> is not part of the sources at
  hand and is the argument \<open>computePositionPnl\<close>. The first version compares with
  \<open>config.lossLimit\<close>, the second with \<open>currentLossLimit\<close>.
\<close>

definition checkStopLoss_v1 ::
  "(PositionSnapshot \<Rightarrow> real option \<Rightarrow> real option \<Rightarrow> real) \<Rightarrow> exchange \<Rightarrow> PositionSnapshot \<Rightarrow>
   real option \<Rightarrow> real option \<Rightarrow> DepthImbalanceEngine \<Rightarrow> DepthImbalanceEngine" where
  "checkStopLoss_v1 computePositionPnl ex position topBid topAsk e =
     (let absPosition = \<bar>positionAmt position\<bar> in
      if absPosition < EPS then e
      else
        (let pnl = computePositionPnl position topBid topAsk
         in if pnl \<le> - lossLimit (config e) then
              marketExit ex position topBid topAsk
                (pushLog ''stop'' (StopLossMsg pnl (lossLimit (config e))) e)
            else e))"

definition checkStopLoss ::
  "(PositionSnapshot \<Rightarrow> real option \<Rightarrow> real option \<Rightarrow> real) \<Rightarrow> exchange \<Rightarrow> PositionSnapshot \<Rightarrow>
   real option \<Rightarrow> real option \<Rightarrow> DepthImbalanceEngine \<Rightarrow> DepthImbalanceEngine" where
  "checkStopLoss computePositionPnl ex position topBid topAsk e =
     (let absPosition = \<bar>positionAmt position\<bar> in
      if absPosition < EPS then e
      else
        (let pnl = computePositionPnl position topBid topAsk
         in if pnl \<le> - currentLossLimit e then
              marketExit ex position topBid topAsk
                (pushLog ''stop'' (StopLossMsg pnl (currentLossLimit e)) e)
            else e))"

text \<open>
  \<open>marketEntry\<close> of the first version: one market order for \<open>config.tradeAmount\<close>; an
  error is passed on to the caller. The result is \<open>Inr ()\<close> on return and \<open>Inl\<close> the
  error thrown.
\<close>

definition marketEntry_v1 ::
  "exchange \<Rightarrow> OrderSide \<Rightarrow> DepthImbalanceEngine \<Rightarrow> (error + unit) \<times> DepthImbalanceEngine" where
  "marketEntry_v1 ex sd e =
     (case callExchange ex (CreateOrder (symbol (config e)) sd MARKET (tradeAmount (config e))) e of
        (Inr orderId, e1) \<Rightarrow>
          (Inr (), pushLog ''order'' (EntryOrderMsg sd (tradeAmount (config e)) orderId) e1)
      | (Inl err, e1) \<Rightarrow> (Inl err, e1))"

text \<open>
  \<open>marketEntry\<close> of the second version. The loop variables \<open>attemptAmount\<close> and
  \<open>attempts\<close> are arguments of the recursion. The check against \<open>minTradeAmount\<close> throws
  inside the \<open>try\<close> block, so the \<open>catch\<close> block sees that error too: it is not an
  insufficient-margin error and is thrown on.
\<close>

function marketEntryLoop ::
  "exchange \<Rightarrow> OrderSide \<Rightarrow> real \<Rightarrow> nat \<Rightarrow> DepthImbalanceEngine \<Rightarrow> (error + unit) \<times> DepthImbalanceEngine" where
  "marketEntryLoop ex sd attemptAmount attempts e =
     (if attempts < maxRetryAttempts e then
        (if attemptAmount < minTradeAmount e then
           (Inl BelowMinimumError,
            pushLog ''error'' (BelowMinimumMsg attemptAmount (minTradeAmount e)) e)
         else
           (case callExchange ex (CreateOrder (symbol (config e)) sd MARKET attemptAmount) e of
              (Inr orderId, e1) \<Rightarrow>
                (Inr (),
                 pushLog ''order'' (EntryOrderMsg sd attemptAmount orderId)
                   (e1\<lparr>currentTradeAmount := attemptAmount\<rparr>))
            | (Inl err, e1) \<Rightarrow>
                (if isInsufficientMarginError err then
                   (let e2 = e1\<lparr>currentLossLimit := currentLossLimit e1 / 2\<rparr>;
                        e3 = pushLog ''warn''
                               (MarginRetryMsg (attempts + 1) attemptAmount (attemptAmount / 2)
                                  (currentLossLimit e1) (currentLossLimit e2)) e2
                    in if attempts + 1 < maxRetryAttempts e \<and> attemptAmount / 2 \<ge> minTradeAmount e
                       then marketEntryLoop ex sd (attemptAmount / 2) (attempts + 1) e3
                       else (Inl err, e3))
                 else (Inl err, e1))))
      else (Inl AttemptsExhaustedError, e))"
  by pat_completeness auto
termination
  by (relation "measure (\<lambda>(ex, sd, attemptAmount, attempts, e). maxRetryAttempts e - attempts)")
     (auto simp: pushLog_def callExchange_def)

definition marketEntry ::
  "exchange \<Rightarrow> OrderSide \<Rightarrow> DepthImbalanceEngine \<Rightarrow> (error + unit) \<times> DepthImbalanceEngine" where
  "marketEntry ex sd e = marketEntryLoop ex sd (currentTradeAmount e) 0 e"


text \<open>
  The methods both versions share. \<open>entry\<close> stands for the version's \<open>marketEntry\<close> and
  \<open>stopLoss\<close> for its \<open>checkStopLoss\<close>; \<open>ops\<close> is the arithmetic of the number type,
  used for the ratio of the two quantities and for the closing thresholds.
\<close>

definition checkEntryCondition ::
  "NumberOps \<Rightarrow>
   (exchange \<Rightarrow> OrderSide \<Rightarrow> DepthImbalanceEngine \<Rightarrow> (error + unit) \<times> DepthImbalanceEngine) \<Rightarrow>
   exchange \<Rightarrow> real \<Rightarrow> real \<Rightarrow> real \<Rightarrow> real \<Rightarrow> DepthImbalanceEngine \<Rightarrow> DepthImbalanceEngine" where
  "checkEntryCondition ops entry ex bidQty askQty topBid topAsk e =
     (if bidQty < minDepthQty (config e) \<and> askQty < minDepthQty (config e) then e
      else
        (let ratio = numDiv ops (max bidQty askQty) (min bidQty askQty) in
         if ratio < imbalanceRatio (config e) then e
         else
           (let sd = (if bidQty > askQty then BUY else SELL);
                ps = (if sd = BUY then LONG else SHORT);
                e1 = pushLog ''signal'' (ImbalanceDetectedMsg bidQty askQty ratio ps) e;
                e2 = e1\<lparr>entryBidQty := bidQty, entryAskQty := askQty, positionSide := Some ps\<rparr>
            in case entry ex sd e2 of
                 (Inr _, e3) \<Rightarrow> e3
               | (Inl err, e3) \<Rightarrow>
                   (let e4 = (if isUnknownOrderError err then pushLog ''order'' EntryOrderGoneMsg e3
                              else pushLog ''error'' (EntryFailedMsg err) e3)
                    in e4\<lparr>positionSide := None, entryBidQty := 0, entryAskQty := 0\<rparr>))))"

definition checkExitCondition ::
  "NumberOps \<Rightarrow> exchange \<Rightarrow> PositionSnapshot \<Rightarrow> real \<Rightarrow> real \<Rightarrow> real \<Rightarrow> real \<Rightarrow>
   DepthImbalanceEngine \<Rightarrow> DepthImbalanceEngine" where
  "checkExitCondition ops ex position bidQty askQty topBid topAsk e =
     (let e1 = (if positionSide e = None
                then e\<lparr>positionSide := Some (if positionAmt position > 0 then LONG else SHORT)\<rparr>
                else e);
          longThreshold = numMul ops bidQty (closeBalanceRatio (config e1));
          shortThreshold = numMul ops askQty (closeBalanceRatio (config e1));
          shouldClose =
            (case positionSide e1 of
               Some LONG \<Rightarrow> askQty \<ge> longThreshold
             | Some SHORT \<Rightarrow> bidQty \<ge> shortThreshold
             | None \<Rightarrow> False)
      in if shouldClose then
           marketExit ex position (Some topBid) (Some topAsk)
             (pushLog ''signal''
                (ExitSignalMsg bidQty askQty
                   (if positionSide e1 = Some LONG then longThreshold else shortThreshold)) e1)
         else e1)"

text \<open>
  The part of \<open>tick\<close> that runs once the rate limiter has answered \<open>run\<close> and both
  snapshots are present. \<open>topBid\<close> and \<open>topAsk\<close> are what \<open>getTopPrices\<close> returned and
  \<open>position\<close> what \<open>getPosition\<close> returned. No call in this part lets an error escape,
  so the \<open>catch\<close> block of \<open>tick\<close> is not entered from it.
\<close>

definition tickBody ::
  "NumberOps \<Rightarrow>
   (exchange \<Rightarrow> OrderSide \<Rightarrow> DepthImbalanceEngine \<Rightarrow> (error + unit) \<times> DepthImbalanceEngine) \<Rightarrow>
   (exchange \<Rightarrow> PositionSnapshot \<Rightarrow> real option \<Rightarrow> real option \<Rightarrow> DepthImbalanceEngine \<Rightarrow> DepthImbalanceEngine) \<Rightarrow>
   exchange \<Rightarrow> int \<Rightarrow> int \<Rightarrow> AsterDepth \<Rightarrow> real option \<Rightarrow> real option \<Rightarrow> PositionSnapshot \<Rightarrow>
   DepthImbalanceEngine \<Rightarrow> DepthImbalanceEngine" where
  "tickBody ops entry stopLoss ex now nowReset depth topBid topAsk position e =
     (case topBid of
        None \<Rightarrow> emitUpdate now nowReset e
      | Some tb \<Rightarrow>
         (case topAsk of
            None \<Rightarrow> emitUpdate now nowReset e
          | Some ta \<Rightarrow>
             (let bidQty = firstLevelQty (bids depth);
                  askQty = firstLevelQty (asks depth)
              in if bidQty \<le> 0 \<or> askQty \<le> 0 then emitUpdate now nowReset e
                 else
                   (let absPosition = \<bar>positionAmt position\<bar>;
                        e1 = (if absPosition < EPS
                              then checkEntryCondition ops entry ex bidQty askQty tb ta e
                              else checkExitCondition ops ex position bidQty askQty tb ta e);
                        e2 = stopLoss ex position (Some tb) (Some ta) e1
                    in emitUpdate now nowReset e2))))"

definition tickBody_v1 ::
  "NumberOps \<Rightarrow> (PositionSnapshot \<Rightarrow> real option \<Rightarrow> real option \<Rightarrow> real) \<Rightarrow> exchange \<Rightarrow> int \<Rightarrow> int \<Rightarrow>
   AsterDepth \<Rightarrow> real option \<Rightarrow> real option \<Rightarrow> PositionSnapshot \<Rightarrow>
   DepthImbalanceEngine \<Rightarrow> DepthImbalanceEngine" where
  "tickBody_v1 ops computePositionPnl =
     tickBody ops marketEntry_v1 (checkStopLoss_v1 computePositionPnl)"

definition tickBody_v2 ::
  "NumberOps \<Rightarrow> (PositionSnapshot \<Rightarrow> real option \<Rightarrow> real option \<Rightarrow> real) \<Rightarrow> exchange \<Rightarrow> int \<Rightarrow> int \<Rightarrow>
   AsterDepth \<Rightarrow> real option \<Rightarrow> real option \<Rightarrow> PositionSnapshot \<Rightarrow>
   DepthImbalanceEngine \<Rightarrow> DepthImbalanceEngine" where
  "tickBody_v2 ops computePositionPnl =
     tickBody ops marketEntry (checkStopLoss computePositionPnl)"

section \<open>Order planner (core/lib/order-plan.ts)\<close>

record AsterOrder =
  orderId :: nat
  openSide :: OrderSide
  openPrice :: real
  openReduceOnly :: bool

definition sameKey :: "AsterOrder \<Rightarrow> DesiredOrder \<Rightarrow> bool" where
  "sameKey ord d = (openSide ord = side d \<and> openReduceOnly ord = reduceOnly d)"

text \<open>An open order satisfies a desired entry within the tolerance.\<close>

definition matchesWithin :: "real \<Rightarrow> AsterOrder \<Rightarrow> DesiredOrder \<Rightarrow> bool" where
  "matchesWithin tolerance ord d = (sameKey ord d \<and> \<bar>openPrice ord - orderPrice d\<bar> \<le> tolerance)"

text \<open>
  Modelled from the spec: \<open>makeOrderPlan\<close> of \<open>core/lib/order-plan.ts\<close>, which the engines
  import and which is not part of the sources at hand. Following section 4.3: for each
  desired entry the planner finds an open order with the same side and reduce-only flag;
  if one is found and its price is within the tolerance of the desired price, the order
  is kept and nothing is scheduled for that entry; otherwise the order found, if any, is
  scheduled for cancellation and the entry for placement. Every open order for which no
  desired entry has its side and reduce-only flag is scheduled for cancellation. Where
  several open orders have the side and flag of a desired entry, section 4.3 does not say
  which one is found; as it requires that nothing is scheduled when the open orders
  already satisfy the desired entries, the order found is one within the tolerance when
  there is one, and the first of that side and flag otherwise.
\<close>

definition planEntry :: "AsterOrder list \<Rightarrow> real \<Rightarrow> DesiredOrder \<Rightarrow> AsterOrder list \<times> DesiredOrder list" where
  "planEntry openOrders tolerance d =
     (case find (\<lambda>ord. matchesWithin tolerance ord d) openOrders of
        Some kept \<Rightarrow> ([], [])
      | None \<Rightarrow>
          (case find (\<lambda>ord. sameKey ord d) openOrders of
             None \<Rightarrow> ([], [d])
           | Some ord \<Rightarrow> ([ord], [d])))"

definition makeOrderPlan ::
  "AsterOrder list \<Rightarrow> DesiredOrder list \<Rightarrow> real \<Rightarrow> AsterOrder list \<times> DesiredOrder list" where
  "makeOrderPlan openOrders targets tolerance =
     (let plans = map (planEntry openOrders tolerance) targets;
          unmatched = filter (\<lambda>ord. \<not> list_ex (sameKey ord) targets) openOrders
      in (concat (map fst plans) @ unmatched, concat (map snd plans)))"


section \<open>Vocabulary for the retry loop of \<open>marketEntry\<close>\<close>

text \<open>
  The \<open>j\<close>-th order request of an entry that starts from the engine's current trade
  amount, the answers that count as insufficient-margin rejections, the statement that
  the exchange rejects the first \<open>k\<close> requests of an entry in that way, and the loop's
  own condition for going on (fewer attempts than the maximum and an amount not below
  the floor) at each of the attempts \<open>0..k\<close>.
\<close>

definition orderRequest :: "DepthImbalanceEngine \<Rightarrow> OrderSide \<Rightarrow> nat \<Rightarrow> exchange_call" where
  "orderRequest e sd j = CreateOrder (symbol (config e)) sd MARKET (currentTradeAmount e / 2 ^ j)"

definition isMarginRejection :: "error + nat \<Rightarrow> bool" where
  "isMarginRejection r = (case r of Inl err \<Rightarrow> isInsufficientMarginError err | Inr _ \<Rightarrow> False)"

definition marginRejected :: "exchange \<Rightarrow> DepthImbalanceEngine \<Rightarrow> OrderSide \<Rightarrow> nat \<Rightarrow> bool" where
  "marginRejected ex e sd k =
     list_all (\<lambda>j. isMarginRejection (ex (length (exchangeCalls e) + j) (orderRequest e sd j))) [0..<k]"

definition retriesAllowed :: "nat \<Rightarrow> real \<Rightarrow> real \<Rightarrow> nat \<Rightarrow> bool" where
  "retriesAllowed maxAttempts floorAmount startAmount k =
     list_all (\<lambda>j. j < maxAttempts \<and> floorAmount \<le> startAmount / 2 ^ j) [0..<Suc k]"

text \<open>The engine after one insufficient-margin rejection of a request for \<open>amt\<close>.\<close>

definition afterRejection :: "OrderSide \<Rightarrow> real \<Rightarrow> nat \<Rightarrow> DepthImbalanceEngine \<Rightarrow> DepthImbalanceEngine" where
  "afterRejection sd amt attempts e =
     pushLog ''warn''
       (MarginRetryMsg (attempts + 1) amt (amt / 2) (currentLossLimit e) (currentLossLimit e / 2))
       (e\<lparr>exchangeCalls := exchangeCalls e @ [CreateOrder (symbol (config e)) sd MARKET amt],
          currentLossLimit := currentLossLimit e / 2\<rparr>)"

section \<open>Example inputs\<close>

definition exampleDegraded :: RateLimitController where
  "exampleDegraded =
     \<lparr> state = Degraded, pausedUntil = None, lastCycleAt = 36000, lastRateLimitAt = 6000,
       pauseMs = 30000, recoveryMs = 60000, entriesSuppressed = True, baseInterval = 1000,
       logCalls = [] \<rparr>"

definition exampleSuppressedNormal :: RateLimitController where
  "exampleSuppressedNormal =
     \<lparr> state = Normal, pausedUntil = None, lastCycleAt = 0, lastRateLimitAt = 0,
       pauseMs = 30000, recoveryMs = 60000, entriesSuppressed = True, baseInterval = 1000,
       logCalls = [] \<rparr>"

definition exampleStats :: TradingStats where
  "exampleStats =
     \<lparr> makerOrderCount = 3, takerOrderCount = 1, totalFees = 2, totalPnl = - 1,
       totalVolume = 1000, pointsRate = 30, startTime = 0 \<rparr>"

definition exampleHourly :: HourlyStats where
  "exampleHourly =
     \<lparr> makerOrderCount = 2, takerOrderCount = 0, totalFees = 1, totalPnl = 0,
       totalVolume = 400, pointsRate = 25, startTime = 0, hourStartTime = 1000 \<rparr>"

definition exampleMakerConfig :: MakerConfig where
  "exampleMakerConfig =
     \<lparr> symbol = ''BTCUSDT'', tradeAmount = 1 / 1000, lossLimit = 3 / 100,
       refreshIntervalMs = 1500, maxLogEntries = 200, maxCloseSlippagePct = 5 / 100,
       priceChaseThreshold = 3 / 10, bidOffset = 0, askOffset = 0, priceTick = 1 / 10 \<rparr>"

definition exampleMakerEngine :: MakerEngine where
  "exampleMakerEngine =
     \<lparr> config = exampleMakerConfig,
       rateLimit = newRateLimitController 1500 None None,
       tradingStats = \<lparr> total = exampleStats, hourly = exampleHourly \<rparr>,
       tradeLog = [], csvExports = [], exchangeCalls = [], updatesEmitted = 0,
       desiredOrders = [], entryPricePendingLogged = False \<rparr>"


definition examplePosition :: "real \<Rightarrow> PositionSnapshot" where
  "examplePosition amt = \<lparr> positionAmt = amt, entryPrice = 100, markPrice = Some 100 \<rparr>"

definition exampleTrade :: "string \<Rightarrow> TradeExecutionData" where
  "exampleTrade tradeSymbol =
     \<lparr> exSymbol = tradeSymbol, exOrderId = 7, exTradeId = 9, exPrice = 100, exQty = 2,
       exQuoteQty = 200, exCommission = - (1 / 10), exCommissionAsset = ''USDT'',
       exIsMaker = True, exRealizedPnl = 1 / 2, exSide = ''BUY'', exTimestamp = 5000 \<rparr>"

definition exampleDepthConfig :: DepthImbalanceConfig where
  "exampleDepthConfig =
     \<lparr> symbol = ''BTCUSDT'', tradeAmount = 128, lossLimit = 4,
       refreshIntervalMs = 1000, maxLogEntries = 200, maxCloseSlippagePct = 5 / 100,
       minDepthQty = 100, imbalanceRatio = 6, closeBalanceRatio = 7 / 10 \<rparr>"

definition exampleDepthEngine :: DepthImbalanceEngine where
  "exampleDepthEngine = newDepthImbalanceEngine exampleDepthConfig 0"

text \<open>
  An exchange that rejects the requests numbered below \<open>n\<close> for insufficient margin and
  accepts the others, one that rejects every request with an error no classifier
  recognises, and a PnL function that reports a fixed value.
\<close>

definition rejectFirst :: "nat \<Rightarrow> exchange" where
  "rejectFirst n = (\<lambda>i c. if i < n then Inl (ExchangeError False False True) else Inr i)"

definition failingExchange :: exchange where
  "failingExchange = (\<lambda>i c. Inl (ExchangeError False False False))"

definition fixedPnl :: "real \<Rightarrow> PositionSnapshot \<Rightarrow> real option \<Rightarrow> real option \<Rightarrow> real" where
  "fixedPnl v = (\<lambda>p b a. v)"

text \<open>
  The engine after a first entry whose first request was rejected for insufficient
  margin and whose second request, for half the amount, was accepted.
\<close>

definition exampleReducedEngine :: DepthImbalanceEngine where
  "exampleReducedEngine = snd (marketEntry (rejectFirst 1) BUY exampleDepthEngine)"

definition exampleDepth :: AsterDepth where
  "exampleDepth = \<lparr> bids = [(100, 50)], asks = [(501 / 5, 500)] \<rparr>"

text \<open>
  The doubles nearest to 601.8 and to 100.3, and a book with these first-level
  quantities.
\<close>

definition double_601_8 :: real where
  "double_601_8 = 2646744390382387 / 4398046511104"

definition double_100_3 :: real where
  "double_100_3 = 7057985041019699 / 70368744177664"

definition thresholdDepth :: AsterDepth where
  "thresholdDepth = \<lparr> bids = [(100, double_601_8)], asks = [(501 / 5, double_100_3)] \<rparr>"

text \<open>Open and desired orders for the planner.\<close>

definition openBuyAt :: "nat \<Rightarrow> real \<Rightarrow> AsterOrder" where
  "openBuyAt i p = \<lparr> orderId = i, openSide = BUY, openPrice = p, openReduceOnly = False \<rparr>"

definition openSellAt :: "nat \<Rightarrow> real \<Rightarrow> AsterOrder" where
  "openSellAt i p = \<lparr> orderId = i, openSide = SELL, openPrice = p, openReduceOnly = False \<rparr>"

definition desiredBuyAt :: "real \<Rightarrow> DesiredOrder" where
  "desiredBuyAt p = \<lparr> side = BUY, amount = 1, reduceOnly = False, orderPrice = p \<rparr>"

definition desiredSellAt :: "real \<Rightarrow> DesiredOrder" where
  "desiredSellAt p = \<lparr> side = SELL, amount = 1, reduceOnly = False, orderPrice = p \<rparr>"

section \<open>Properties of the rate-limit controller\<close>

lemmas rl_defs = registerRateLimit_def suppressEntries_def allowEntries_def logCall_def
  currentInterval_def beforeCycle_def cadenceCheck_def onCycleComplete_def

lemma registerRateLimit_from_normal:
  "state c = Normal \<Longrightarrow> state (registerRateLimit src now c) = Degraded
     \<and> currentInterval (registerRateLimit src now c) = 2 * baseInterval c"
  by (simp add: rl_defs Let_def)

lemma registerRateLimit_from_degraded:
  "state c = Degraded \<Longrightarrow> state (registerRateLimit src now c) = Paused
     \<and> pausedUntil (registerRateLimit src now c) = Some (now + pauseMs c)"
  by (simp add: rl_defs Let_def)

lemma registerRateLimit_from_paused:
  "state c = Paused \<Longrightarrow> state (registerRateLimit src now c) = Paused
     \<and> pausedUntil (registerRateLimit src now c) = Some (now + pauseMs c)"
  by (simp add: rl_defs Let_def)

lemma beforeCycle_pause_elapsed:
  "state c = Paused \<Longrightarrow> pausedUntil c = Some p \<Longrightarrow> p \<le> t \<Longrightarrow>
     state (snd (beforeCycle t c)) = Degraded \<and> fst (beforeCycle t c) \<noteq> PausedDecision"
  by (simp add: rl_defs Let_def)

lemma beforeCycle_paused_not_normal:
  "state c = Paused \<Longrightarrow> state (snd (beforeCycle t c)) \<noteq> Normal"
  by (simp add: rl_defs Let_def split: option.splits)

lemma onCycleComplete_paused:
  "state c = Paused \<Longrightarrow> onCycleComplete h t c = c"
  by (simp add: rl_defs Let_def)

lemma rl_step_paused_not_normal:
  "state c = Paused \<Longrightarrow> state (rl_step opn c) \<noteq> Normal"
  by (cases opn)
     (simp_all add: beforeCycle_paused_not_normal onCycleComplete_paused registerRateLimit_from_paused)

lemma rl_run_head: "\<exists>rest. rl_run c ops = c # rest"
  by (cases ops) simp_all

lemma rl_run_no_paused_then_normal:
  "\<not> paused_then_normal (map state (rl_run c ops))"
proof (induction ops arbitrary: c)
  case Nil
  show ?case by simp
next
  case (Cons opn ops)
  obtain rest where r: "rl_run (rl_step opn c) ops = rl_step opn c # rest"
    using rl_run_head by blast
  have ih: "\<not> paused_then_normal (state (rl_step opn c) # map state rest)"
    using Cons.IH [of "rl_step opn c"] by (simp add: r)
  have st: "\<not> (state c = Paused \<and> state (rl_step opn c) = Normal)"
    using rl_step_paused_not_normal by blast
  show ?case using ih st by (simp add: r)
qed

text \<open>A paused controller reached from a new one always has a pause deadline.\<close>

lemma rl_step_paused_has_deadline:
  "(state c = Paused \<longrightarrow> pausedUntil c \<noteq> None) \<Longrightarrow>
   (state (rl_step opn c) = Paused \<longrightarrow> pausedUntil (rl_step opn c) \<noteq> None)"
  by (cases opn) (auto simp: rl_defs Let_def split: option.splits if_splits)

lemma rl_run_paused_has_deadline:
  "(state c = Paused \<longrightarrow> pausedUntil c \<noteq> None) \<Longrightarrow>
   list_all (\<lambda>x. state x = Paused \<longrightarrow> pausedUntil x \<noteq> None) (rl_run c ops)"
proof (induction ops arbitrary: c)
  case Nil
  then show ?case by simp
next
  case (Cons opn ops)
  have "state (rl_step opn c) = Paused \<longrightarrow> pausedUntil (rl_step opn c) \<noteq> None"
    using Cons.prems by (rule rl_step_paused_has_deadline)
  then have "list_all (\<lambda>x. state x = Paused \<longrightarrow> pausedUntil x \<noteq> None) (rl_run (rl_step opn c) ops)"
    by (rule Cons.IH)
  then show ?case using Cons.prems by simp
qed

text \<open>
  Claim C1. From \<open>normal\<close>, \<open>registerRateLimit\<close> moves the controller to \<open>degraded\<close>
  and the interval in force becomes twice the base interval; from \<open>degraded\<close> it moves
  to \<open>paused\<close> with \<open>pausedUntil = now + pauseMs\<close>; while \<open>paused\<close> it stays paused and
  sets \<open>pausedUntil\<close> to \<open>now + pauseMs\<close> again; a \<open>beforeCycle\<close> at or after
  \<open>pausedUntil\<close> moves a paused controller to \<open>degraded\<close>; and in the sequence of
  states visited by any list of operations, started anywhere, \<open>paused\<close> is never
  followed directly by \<open>normal\<close>. Every paused controller visited from a new
  controller has a \<open>pausedUntil\<close>.
\<close>

theorem rate_limit_escalation:
  "(state cn = Normal \<longrightarrow>
      state (registerRateLimit src now cn) = Degraded
      \<and> currentInterval (registerRateLimit src now cn) = 2 * baseInterval cn)
   \<and> (state cd = Degraded \<longrightarrow>
      state (registerRateLimit src now cd) = Paused
      \<and> pausedUntil (registerRateLimit src now cd) = Some (now + pauseMs cd))
   \<and> (state cp = Paused \<longrightarrow>
      state (registerRateLimit src now cp) = Paused
      \<and> pausedUntil (registerRateLimit src now cp) = Some (now + pauseMs cp))
   \<and> (state cq = Paused \<and> pausedUntil cq = Some p \<and> p \<le> t \<longrightarrow>
      state (snd (beforeCycle t cq)) = Degraded)
   \<and> \<not> paused_then_normal (map state (rl_run c ops))
   \<and> list_all (\<lambda>x. state x = Paused \<longrightarrow> pausedUntil x \<noteq> None)
        (rl_run (newRateLimitController base optPause optRecovery) ops')"
proof -
  have "state (newRateLimitController base optPause optRecovery) = Paused
      \<longrightarrow> pausedUntil (newRateLimitController base optPause optRecovery) \<noteq> None"
    by (simp add: newRateLimitController_def)
  then have "list_all (\<lambda>x. state x = Paused \<longrightarrow> pausedUntil x \<noteq> None)
        (rl_run (newRateLimitController base optPause optRecovery) ops')"
    by (rule rl_run_paused_has_deadline)
  then show ?thesis
    using registerRateLimit_from_normal [of cn src now]
      registerRateLimit_from_degraded [of cd src now]
      registerRateLimit_from_paused [of cp src now]
      beforeCycle_pause_elapsed [of cq p t]
      rl_run_no_paused_then_normal [of c ops]
    by blast
qed

theorem rate_limit_escalation_witness:
  "state (newRateLimitController 1000 None None) = Normal
   \<and> state (registerRateLimit (Some ''maker'') 5000 (newRateLimitController 1000 None None)) = Degraded
   \<and> currentInterval (registerRateLimit (Some ''maker'') 5000 (newRateLimitController 1000 None None)) = 2000
   \<and> state (registerRateLimit (Some ''maker'') 6000
        (registerRateLimit (Some ''maker'') 5000 (newRateLimitController 1000 None None))) = Paused
   \<and> pausedUntil (registerRateLimit (Some ''maker'') 6000
        (registerRateLimit (Some ''maker'') 5000 (newRateLimitController 1000 None None))) = Some 36000
   \<and> pausedUntil (registerRateLimit (Some ''maker'') 7000
        (registerRateLimit (Some ''maker'') 6000
          (registerRateLimit (Some ''maker'') 5000 (newRateLimitController 1000 None None)))) = Some 37000
   \<and> state (snd (beforeCycle 36000
        (registerRateLimit (Some ''maker'') 6000
          (registerRateLimit (Some ''maker'') 5000 (newRateLimitController 1000 None None))))) = Degraded
   \<and> map state (rl_run (newRateLimitController 1000 None None)
        [RegisterRateLimit (Some ''maker'') 5000, RegisterRateLimit (Some ''maker'') 6000,
         BeforeCycle 36000, OnCycleComplete False 70000])
       = [Normal, Degraded, Paused, Degraded, Normal]
   \<and> \<not> paused_then_normal (map state (rl_run (newRateLimitController 1000 None None)
        [RegisterRateLimit (Some ''maker'') 5000, RegisterRateLimit (Some ''maker'') 6000,
         BeforeCycle 36000, OnCycleComplete False 70000]))"
  using rate_limit_escalation
    [of "newRateLimitController 1000 None None" "Some ''maker''" 5000
        "registerRateLimit (Some ''maker'') 5000 (newRateLimitController 1000 None None)"
        "registerRateLimit (Some ''maker'') 6000
          (registerRateLimit (Some ''maker'') 5000 (newRateLimitController 1000 None None))"
        "registerRateLimit (Some ''maker'') 6000
          (registerRateLimit (Some ''maker'') 5000 (newRateLimitController 1000 None None))"
        36000 36000 "newRateLimitController 1000 None None"
        "[RegisterRateLimit (Some ''maker'') 5000, RegisterRateLimit (Some ''maker'') 6000,
          BeforeCycle 36000, OnCycleComplete False 70000]"
        1000 None None
        "[RegisterRateLimit (Some ''maker'') 5000, RegisterRateLimit (Some ''maker'') 6000]"]
  by (simp add: rl_defs newRateLimitController_def DEFAULT_PAUSE_MS_def DEFAULT_RECOVERY_MS_def Let_def)


lemma onCycleComplete_demotes_iff:
  "(state c = Degraded \<and> state (onCycleComplete h now c) = Normal) \<longleftrightarrow>
     (\<not> h \<and> state c = Degraded \<and> 0 < lastRateLimitAt c \<and> recoveryMs c \<le> now - lastRateLimitAt c)"
  by (auto simp: rl_defs Let_def split: if_splits)

lemma onCycleComplete_demotes:
  "\<not> h \<and> state c = Degraded \<and> 0 < lastRateLimitAt c \<and> recoveryMs c \<le> now - lastRateLimitAt c \<longrightarrow>
     state (onCycleComplete h now c) = Normal
     \<and> \<not> entriesSuppressed (onCycleComplete h now c)
     \<and> \<not> shouldBlockEntries (onCycleComplete h now c)"
  by (simp add: rl_defs Let_def shouldBlockEntries_def)

lemma onCycleComplete_clears:
  "\<not> h \<and> state c = Normal \<and> entriesSuppressed c \<and> lastRateLimitAt c = 0 \<longrightarrow>
     onCycleComplete h now c = logCall Info EntriesAllowedMsg (c\<lparr>entriesSuppressed := False\<rparr>)"
  by (simp add: rl_defs Let_def)

lemma onCycleComplete_otherwise:
  "\<not> (\<not> h \<and> state c = Degraded \<and> 0 < lastRateLimitAt c \<and> recoveryMs c \<le> now - lastRateLimitAt c)
   \<and> \<not> (\<not> h \<and> state c = Normal \<and> entriesSuppressed c \<and> lastRateLimitAt c = 0) \<longrightarrow>
     onCycleComplete h now c = c"
  by (auto simp: rl_defs Let_def)

text \<open>
  Claim C6. \<open>onCycleComplete\<close> takes a degraded controller to \<open>normal\<close> exactly when no
  rate limit occurred in the cycle, a rate-limit time is recorded (\<open>lastRateLimitAt > 0\<close>)
  and at least \<open>recoveryMs\<close> have passed since it; entries are then allowed again. When
  no rate limit occurred, the state is \<open>normal\<close>, entries are suppressed and no rate-limit
  time is recorded, the suppression is cleared and nothing else but the log changes. In
  every other case the controller is returned as it was.
\<close>

theorem onCycleComplete_cases:
  "((state c = Degraded \<and> state (onCycleComplete h now c) = Normal) \<longleftrightarrow>
      (\<not> h \<and> state c = Degraded \<and> 0 < lastRateLimitAt c \<and> recoveryMs c \<le> now - lastRateLimitAt c))
   \<and> (\<not> h1 \<and> state c1 = Degraded \<and> 0 < lastRateLimitAt c1 \<and> recoveryMs c1 \<le> now1 - lastRateLimitAt c1 \<longrightarrow>
        state (onCycleComplete h1 now1 c1) = Normal
        \<and> \<not> entriesSuppressed (onCycleComplete h1 now1 c1)
        \<and> \<not> shouldBlockEntries (onCycleComplete h1 now1 c1))
   \<and> (\<not> h2 \<and> state c2 = Normal \<and> entriesSuppressed c2 \<and> lastRateLimitAt c2 = 0 \<longrightarrow>
        onCycleComplete h2 now2 c2 = logCall Info EntriesAllowedMsg (c2\<lparr>entriesSuppressed := False\<rparr>))
   \<and> (\<not> (\<not> h3 \<and> state c3 = Degraded \<and> 0 < lastRateLimitAt c3 \<and> recoveryMs c3 \<le> now3 - lastRateLimitAt c3)
        \<and> \<not> (\<not> h3 \<and> state c3 = Normal \<and> entriesSuppressed c3 \<and> lastRateLimitAt c3 = 0) \<longrightarrow>
        onCycleComplete h3 now3 c3 = c3)"
  using onCycleComplete_demotes_iff [of c h now] onCycleComplete_demotes [of h1 c1 now1]
    onCycleComplete_clears [of h2 c2 now2] onCycleComplete_otherwise [of h3 c3 now3]
  by blast

theorem onCycleComplete_cases_witness:
  "state exampleDegraded = Degraded \<and> 0 < lastRateLimitAt exampleDegraded
   \<and> recoveryMs exampleDegraded \<le> 70000 - lastRateLimitAt exampleDegraded
   \<and> state (onCycleComplete False 70000 exampleDegraded) = Normal
   \<and> \<not> entriesSuppressed (onCycleComplete False 70000 exampleDegraded)
   \<and> \<not> shouldBlockEntries (onCycleComplete False 70000 exampleDegraded)
   \<and> state exampleSuppressedNormal = Normal \<and> entriesSuppressed exampleSuppressedNormal
   \<and> lastRateLimitAt exampleSuppressedNormal = 0
   \<and> onCycleComplete False 5 exampleSuppressedNormal
        = logCall Info EntriesAllowedMsg (exampleSuppressedNormal\<lparr>entriesSuppressed := False\<rparr>)
   \<and> 10000 - lastRateLimitAt exampleDegraded < recoveryMs exampleDegraded
   \<and> onCycleComplete False 10000 exampleDegraded = exampleDegraded"
  using onCycleComplete_cases
    [where c = exampleDegraded and h = False and now = 70000
       and ?c1.0 = exampleDegraded and ?h1.0 = False and ?now1.0 = 70000
       and ?c2.0 = exampleSuppressedNormal and ?h2.0 = False and ?now2.0 = 5
       and ?c3.0 = exampleDegraded and ?h3.0 = False and ?now3.0 = 10000]
  by (simp add: exampleDegraded_def exampleSuppressedNormal_def rl_defs shouldBlockEntries_def Let_def)

section \<open>Properties of the trading statistics\<close>

text \<open>
  Claim C9. The two \<open>calculatePointsRate\<close> functions are not the same function: whatever
  non-zero team bonus is configured, there are fees, a PnL and a positive volume on which
  they return different values (for instance no fees, a PnL of 1 and a volume of 1, where
  the unadjusted rate is 0 and the adjusted one is negative).
\<close>

theorem calculatePointsRate_versions_differ:
  "teamBonus \<noteq> 0 \<Longrightarrow>
   \<exists>fees pnl volume. 0 < volume \<and>
     calculatePointsRate_teamBonus teamBonus fees pnl volume
       \<noteq> calculatePointsRate_unadjusted fees pnl volume"
proof -
  assume tb: "teamBonus \<noteq> 0"
  have "calculatePointsRate_teamBonus teamBonus 0 1 1 \<noteq> calculatePointsRate_unadjusted 0 1 1"
    using tb by (simp add: calculatePointsRate_teamBonus_def calculatePointsRate_unadjusted_def)
  moreover have "(0::real) < 1" by simp
  ultimately show ?thesis by blast
qed

theorem calculatePointsRate_versions_differ_witness:
  "DEFAULT_TEAM_BONUS_RATE \<noteq> 0 \<and>
   (\<exists>fees pnl volume. 0 < volume \<and>
     calculatePointsRate_teamBonus DEFAULT_TEAM_BONUS_RATE fees pnl volume
       \<noteq> calculatePointsRate_unadjusted fees pnl volume)"
proof -
  have nz: "DEFAULT_TEAM_BONUS_RATE \<noteq> 0" by (simp add: DEFAULT_TEAM_BONUS_RATE_def)
  show ?thesis using nz calculatePointsRate_versions_differ [OF nz] by simp
qed

text \<open>
  Claim C10. A trade execution whose symbol is not the configured symbol leaves the
  engine, and with it the total and the hourly statistics, exactly as it was; a trade for
  the configured symbol is folded into the total statistics. The handler is the same in
  the maker engine and in the depth-imbalance engine.
\<close>

theorem foreign_trade_ignored:
  "(exSymbol td \<noteq> symbol (config e) \<longrightarrow>
      watchTradesHandler calc now nowReset td e = e
      \<and> tradingStats (watchTradesHandler calc now nowReset td e) = tradingStats e)
   \<and> (exSymbol td' = symbol (config e') \<longrightarrow>
      total (tradingStats (watchTradesHandler calc now nowReset td' e'))
        = updateStatsWithRealTrade calc (total (tradingStats e'))
            \<lparr> isMaker = exIsMaker td', commission = \<bar>exCommission td'\<bar>,
              realizedPnl = exRealizedPnl td', volume = exQuoteQty td',
              price = exPrice td', qty = exQty td',
              tradeId = Some (exTradeId td'), timestamp = exTimestamp td' \<rparr>)"
  by (simp add: watchTradesHandler_def handleRealTrade_def Let_def emitUpdate_def
      resetHourlyIfDue_def pushLog_def resetHourlyStats_def)

theorem foreign_trade_ignored_witness:
  "exSymbol (exampleTrade ''ETHUSDT'') \<noteq> symbol (config exampleMakerEngine)
   \<and> watchTradesHandler calculatePointsRate_unadjusted 10 11 (exampleTrade ''ETHUSDT'') exampleMakerEngine
       = exampleMakerEngine
   \<and> exSymbol (exampleTrade ''BTCUSDT'') = symbol (config exampleDepthEngine)
   \<and> total (tradingStats (watchTradesHandler calculatePointsRate_unadjusted 10 11
        (exampleTrade ''BTCUSDT'') exampleDepthEngine))
       = \<lparr> makerOrderCount = 1, takerOrderCount = 0, totalFees = 1 / 10, totalPnl = 1 / 2,
           totalVolume = 200, pointsRate = 5, startTime = 0 \<rparr>"
  using foreign_trade_ignored
    [where td = "exampleTrade ''ETHUSDT''" and e = exampleMakerEngine
       and td' = "exampleTrade ''BTCUSDT''" and e' = exampleDepthEngine
       and calc = calculatePointsRate_unadjusted and now = 10 and nowReset = 11]
  by (simp add: exampleTrade_def exampleMakerEngine_def exampleMakerConfig_def
      exampleDepthEngine_def exampleDepthConfig_def newDepthImbalanceEngine_def
      createEmptyStats_def createEmptyHourlyStats_def updateStatsWithRealTrade_def
      calculatePointsRate_unadjusted_def Let_def)

text \<open>
  Claim C8. Reading a snapshot at a time \<open>now\<close> resets the hourly record (all counters
  and sums to zero, window start set to the time read by the reset) and hands the record
  as it was before to the CSV logger when \<open>now - hourStartTime\<close> is at least 3600000 ms,
  and changes nothing when it is less; the total record is the same after the read in
  every case.
\<close>

theorem snapshot_hourly_reset:
  "(3600000 \<le> now - hourStartTime (hourly (tradingStats e)) \<longrightarrow>
      hourly (tradingStats (snd (getSnapshot now nowReset e)))
        = (hourly (tradingStats e))\<lparr> makerOrderCount := 0, takerOrderCount := 0, totalFees := 0,
             totalPnl := 0, totalVolume := 0, pointsRate := 0, hourStartTime := nowReset \<rparr>
      \<and> csvExports (snd (getSnapshot now nowReset e)) = csvExports e @ [hourly (tradingStats e)]
      \<and> snapshotTradingStats (fst (getSnapshot now nowReset e))
           = tradingStats (snd (getSnapshot now nowReset e)))
   \<and> (now' - hourStartTime (hourly (tradingStats e')) < 3600000 \<longrightarrow>
      snd (getSnapshot now' nowReset' e') = e'
      \<and> snapshotTradingStats (fst (getSnapshot now' nowReset' e')) = tradingStats e')
   \<and> total (tradingStats (snd (getSnapshot now'' nowReset'' e''))) = total (tradingStats e'')
   \<and> total (snapshotTradingStats (fst (getSnapshot now'' nowReset'' e''))) = total (tradingStats e'')"
  by (simp add: getSnapshot_def resetHourlyIfDue_def shouldResetHourlyStats_def
      resetHourlyStats_def Let_def)

theorem snapshot_hourly_reset_witness:
  "3600000 \<le> 3601001 - hourStartTime (hourly (tradingStats exampleMakerEngine))
   \<and> hourly (tradingStats (snd (getSnapshot 3601001 3601002 exampleMakerEngine)))
       = \<lparr> makerOrderCount = 0, takerOrderCount = 0, totalFees = 0, totalPnl = 0,
           totalVolume = 0, pointsRate = 0, startTime = 0, hourStartTime = 3601002 \<rparr>
   \<and> csvExports (snd (getSnapshot 3601001 3601002 exampleMakerEngine)) = [exampleHourly]
   \<and> 3600999 - hourStartTime (hourly (tradingStats exampleMakerEngine)) < 3600000
   \<and> snd (getSnapshot 3600999 3601000 exampleMakerEngine) = exampleMakerEngine
   \<and> total (tradingStats (snd (getSnapshot 3601001 3601002 exampleMakerEngine))) = exampleStats"
  using snapshot_hourly_reset
    [where now = 3601001 and nowReset = 3601002 and e = exampleMakerEngine
       and now' = 3600999 and nowReset' = 3601000 and e' = exampleMakerEngine
       and now'' = 3601001 and nowReset'' = 3601002 and e'' = exampleMakerEngine]
  by (simp add: exampleMakerEngine_def exampleHourly_def exampleStats_def getSnapshot_def
      resetHourlyIfDue_def shouldResetHourlyStats_def resetHourlyStats_def Let_def)


section \<open>Properties of the symmetric maker engine\<close>



section \<open>Properties of the depth-imbalance engine\<close>









lemma emitUpdate_exchangeCalls: "exchangeCalls (emitUpdate now nr e) = exchangeCalls e"
  by (simp add: emitUpdate_def resetHourlyIfDue_def resetHourlyStats_def Let_def)

lemma checkStopLoss_v1_flat: "\<bar>positionAmt p\<bar> < EPS \<Longrightarrow> checkStopLoss_v1 pnl ex p b a e = e"
  by (simp add: checkStopLoss_v1_def)

lemma checkEntryCondition_v1_calls:
  "exchangeCalls (checkEntryCondition ops marketEntry_v1 ex bq aq tb ta e)
     = exchangeCalls e @
       (if (minDepthQty (config e) \<le> bq \<or> minDepthQty (config e) \<le> aq)
           \<and> imbalanceRatio (config e) \<le> numDiv ops (max bq aq) (min bq aq)
        then [CreateOrder (symbol (config e)) (if bq > aq then BUY else SELL) MARKET (tradeAmount (config e))]
        else [])"
  by (auto simp: checkEntryCondition_def marketEntry_v1_def callExchange_def pushLog_def Let_def
      split: sum.splits prod.splits)

lemmas double_defs = doubleOps_def doubleDiv_def doubleMul_def roundToDouble_def
  binaryExponent_def ulpAt_def roundHalfEven_def bitLength.simps Let_def

text \<open>
  Claim C5, as stated, fails: the engine compares the quotient as computed in double
  precision, not the exact ratio. With first-level quantities 601.8 on the bid side and
  100.3 on the ask side (as doubles), a minimal depth of 100 and an imbalance ratio of 6,
  the larger quantity is less than 6 times the smaller, yet the computed quotient rounds
  to 6 and the engine sends a market buy.
\<close>

theorem imbalance_entry_rounding_counterexample:
  "roundToDouble (3009 / 5) = double_601_8
   \<and> roundToDouble (1003 / 10) = double_100_3
   \<and> \<bar>positionAmt (examplePosition 0)\<bar> < EPS
   \<and> firstLevelQty (bids thresholdDepth) = double_601_8
   \<and> firstLevelQty (asks thresholdDepth) = double_100_3
   \<and> minDepthQty (config exampleDepthEngine) = 100
   \<and> imbalanceRatio (config exampleDepthEngine) = 6
   \<and> max double_601_8 double_100_3 / min double_601_8 double_100_3 < 6
   \<and> exchangeCalls (tickBody_v1 doubleOps (fixedPnl 0) (rejectFirst 0) 10 11 thresholdDepth
        (Some 100) (Some (501 / 5)) (examplePosition 0) exampleDepthEngine)
       = [CreateOrder ''BTCUSDT'' BUY MARKET 128]"
  by (simp add: double_defs double_601_8_def double_100_3_def thresholdDepth_def
      examplePosition_def EPS_def firstLevelQty_def exampleDepthEngine_def exampleDepthConfig_def
      newDepthImbalanceEngine_def tickBody_v1_def tickBody_def checkEntryCondition_def
      checkStopLoss_v1_def marketEntry_v1_def callExchange_def pushLog_def rejectFirst_def
      emitUpdate_def resetHourlyIfDue_def shouldResetHourlyStats_def resetHourlyStats_def
      createEmptyStats_def createEmptyHourlyStats_def newRateLimitController_def)

text \<open>
  Claim C5, amended. In a cycle with a flat position and positive first-level quantities
  on both sides, the engine sends one market order exactly when at least one of the two
  quantities is at least \<open>minDepthQty\<close> and the quotient of the larger quantity by the
  smaller, as computed by the division of the number type (the exact quotient rounded to
  the nearest double), is at least \<open>imbalanceRatio\<close>, and sends nothing otherwise. The
  order is for \<open>config.tradeAmount\<close>; it is a buy when the bid quantity is the larger one
  and a sell when the ask quantity is (and also a sell when the two are equal).
\<close>

theorem imbalance_entry:
  "\<bar>positionAmt p\<bar> < EPS \<Longrightarrow> 0 < firstLevelQty (bids depth) \<Longrightarrow> 0 < firstLevelQty (asks depth) \<Longrightarrow>
   exchangeCalls (tickBody_v1 ops pnl ex now nowReset depth (Some tb) (Some ta) p e)
     = exchangeCalls e @
       (if (minDepthQty (config e) \<le> firstLevelQty (bids depth)
              \<or> minDepthQty (config e) \<le> firstLevelQty (asks depth))
           \<and> imbalanceRatio (config e)
                \<le> numDiv ops (max (firstLevelQty (bids depth)) (firstLevelQty (asks depth)))
                      (min (firstLevelQty (bids depth)) (firstLevelQty (asks depth)))
        then [CreateOrder (symbol (config e))
                (if firstLevelQty (bids depth) > firstLevelQty (asks depth) then BUY else SELL)
                MARKET (tradeAmount (config e))]
        else [])"
proof -
  assume flat: "\<bar>positionAmt p\<bar> < EPS"
    and bq: "0 < firstLevelQty (bids depth)" and aq: "0 < firstLevelQty (asks depth)"
  have "tickBody_v1 ops pnl ex now nowReset depth (Some tb) (Some ta) p e
      = emitUpdate now nowReset
          (checkEntryCondition ops marketEntry_v1 ex (firstLevelQty (bids depth))
             (firstLevelQty (asks depth)) tb ta e)"
    using flat bq aq
    by (simp add: tickBody_v1_def tickBody_def Let_def checkStopLoss_v1_flat)
  then show ?thesis
    by (simp only: emitUpdate_exchangeCalls checkEntryCondition_v1_calls)
qed

theorem imbalance_entry_witness:
  "\<bar>positionAmt (examplePosition 0)\<bar> < EPS
   \<and> firstLevelQty (bids exampleDepth) = 50 \<and> firstLevelQty (asks exampleDepth) = 500
   \<and> minDepthQty (config exampleDepthEngine) = 100 \<and> imbalanceRatio (config exampleDepthEngine) = 6
   \<and> numDiv doubleOps 500 50 = 10
   \<and> exchangeCalls (tickBody_v1 doubleOps (fixedPnl 0) (rejectFirst 0) 10 11 exampleDepth (Some 100)
        (Some (501 / 5)) (examplePosition 0) exampleDepthEngine)
       = [CreateOrder ''BTCUSDT'' SELL MARKET 128]"
proof -
  have h1: "\<bar>positionAmt (examplePosition 0)\<bar> < EPS"
    by (simp add: examplePosition_def EPS_def)
  have h2: "0 < firstLevelQty (bids exampleDepth)"
    by (simp add: exampleDepth_def firstLevelQty_def)
  have h3: "0 < firstLevelQty (asks exampleDepth)"
    by (simp add: exampleDepth_def firstLevelQty_def)
  show ?thesis
    using h1 imbalance_entry [OF h1 h2 h3, of doubleOps "fixedPnl 0" "rejectFirst 0" 10 11 100 "501 / 5" exampleDepthEngine]
    by (simp add: exampleDepth_def firstLevelQty_def exampleDepthEngine_def exampleDepthConfig_def
        newDepthImbalanceEngine_def double_defs)
qed


declare marketEntryLoop.simps [simp del]

lemma loop_success:
  assumes "attempts < maxRetryAttempts e" "minTradeAmount e \<le> amt"
    and "ex (length (exchangeCalls e)) (CreateOrder (symbol (config e)) sd MARKET amt) = Inr oid"
  shows "marketEntryLoop ex sd amt attempts e =
     (Inr (), pushLog ''order'' (EntryOrderMsg sd amt oid)
        (e\<lparr>exchangeCalls := exchangeCalls e @ [CreateOrder (symbol (config e)) sd MARKET amt],
           currentTradeAmount := amt\<rparr>))"
  using assms by (subst marketEntryLoop.simps) (simp add: callExchange_def pushLog_def)

lemma loop_other_error:
  assumes "attempts < maxRetryAttempts e" "minTradeAmount e \<le> amt"
    and "ex (length (exchangeCalls e)) (CreateOrder (symbol (config e)) sd MARKET amt) = Inl err"
    and "\<not> isInsufficientMarginError err"
  shows "marketEntryLoop ex sd amt attempts e =
     (Inl err, e\<lparr>exchangeCalls := exchangeCalls e @ [CreateOrder (symbol (config e)) sd MARKET amt]\<rparr>)"
  using assms by (subst marketEntryLoop.simps) (simp add: callExchange_def pushLog_def)

lemma loop_margin_retry:
  assumes "attempts < maxRetryAttempts e" "minTradeAmount e \<le> amt"
    and "ex (length (exchangeCalls e)) (CreateOrder (symbol (config e)) sd MARKET amt) = Inl err"
    and "isInsufficientMarginError err"
    and "Suc attempts < maxRetryAttempts e" "minTradeAmount e \<le> amt / 2"
  shows "marketEntryLoop ex sd amt attempts e =
     marketEntryLoop ex sd (amt / 2) (Suc attempts) (afterRejection sd amt attempts e)"
  using assms
  by (subst marketEntryLoop.simps) (simp add: callExchange_def pushLog_def afterRejection_def Let_def)

lemma loop_margin_stop:
  assumes "attempts < maxRetryAttempts e" "minTradeAmount e \<le> amt"
    and "ex (length (exchangeCalls e)) (CreateOrder (symbol (config e)) sd MARKET amt) = Inl err"
    and "isInsufficientMarginError err"
    and "\<not> (Suc attempts < maxRetryAttempts e \<and> minTradeAmount e \<le> amt / 2)"
  shows "marketEntryLoop ex sd amt attempts e = (Inl err, afterRejection sd amt attempts e)"
  using assms
  by (subst marketEntryLoop.simps) (auto simp: callExchange_def pushLog_def afterRejection_def Let_def)

lemma afterRejection_fields:
  "exchangeCalls (afterRejection sd amt attempts e) = exchangeCalls e @ [CreateOrder (symbol (config e)) sd MARKET amt]"
  "currentLossLimit (afterRejection sd amt attempts e) = currentLossLimit e / 2"
  "currentTradeAmount (afterRejection sd amt attempts e) = currentTradeAmount e"
  "config (afterRejection sd amt attempts e) = config e"
  "minTradeAmount (afterRejection sd amt attempts e) = minTradeAmount e"
  "maxRetryAttempts (afterRejection sd amt attempts e) = maxRetryAttempts e"
  by (simp_all add: afterRejection_def pushLog_def)

text \<open>The configuration, the floor and the maximal number of attempts are never written.\<close>

lemma marketEntryLoop_readonly:
  "config (snd (marketEntryLoop ex sd amt attempts e)) = config e
   \<and> minTradeAmount (snd (marketEntryLoop ex sd amt attempts e)) = minTradeAmount e
   \<and> maxRetryAttempts (snd (marketEntryLoop ex sd amt attempts e)) = maxRetryAttempts e"
proof (induction ex sd amt attempts e rule: marketEntryLoop.induct)
  case (1 ex sd amt attempts e)
  show ?case
  proof (cases "attempts < maxRetryAttempts e \<and> minTradeAmount e \<le> amt")
    case False
    then show ?thesis
      by (subst (1 2 3) marketEntryLoop.simps) (auto simp: pushLog_def)
  next
    case ok: True
    show ?thesis
    proof (cases "ex (length (exchangeCalls e)) (CreateOrder (symbol (config e)) sd MARKET amt)")
      case (Inr oid)
      show ?thesis
        using ok Inr by (simp add: loop_success [where ex = ex and sd = sd] pushLog_def)
    next
      case (Inl err)
      show ?thesis
      proof (cases "isInsufficientMarginError err")
        case False
        show ?thesis
          using ok Inl False by (simp add: loop_other_error [where ex = ex and sd = sd])
      next
        case margin: True
        show ?thesis
        proof (cases "Suc attempts < maxRetryAttempts e \<and> minTradeAmount e \<le> amt / 2")
          case False
          show ?thesis
            using ok Inl margin False
            by (simp add: loop_margin_stop [where ex = ex and sd = sd] afterRejection_fields)
        next
          case again: True
          have nlt: "\<not> amt < minTradeAmount e" using ok by simp
          have ce: "(Inl err, e\<lparr>exchangeCalls := exchangeCalls e @ [CreateOrder (symbol (config e)) sd MARKET amt]\<rparr>)
              = callExchange ex (CreateOrder (symbol (config e)) sd MARKET amt) e"
            using Inl by (simp add: callExchange_def)
          have ih: "config (snd (marketEntryLoop ex sd (amt / 2) (attempts + 1) (afterRejection sd amt attempts e)))
                = config (afterRejection sd amt attempts e)
              \<and> minTradeAmount (snd (marketEntryLoop ex sd (amt / 2) (attempts + 1) (afterRejection sd amt attempts e)))
                = minTradeAmount (afterRejection sd amt attempts e)
              \<and> maxRetryAttempts (snd (marketEntryLoop ex sd (amt / 2) (attempts + 1) (afterRejection sd amt attempts e)))
                = maxRetryAttempts (afterRejection sd amt attempts e)"
            using "1.IH" [OF conjunct1 [OF ok] nlt ce refl margin refl refl] again
            by (simp add: afterRejection_def)
          show ?thesis
            using ok Inl margin again ih
            by (simp add: loop_margin_retry [where ex = ex and sd = sd] afterRejection_fields)
        qed
      qed
    qed
  qed
qed


lemma marketEntryLoop_prefix:
  assumes rej: "\<forall>j<k. isMarginRejection (ex (length (exchangeCalls e) + j)
                   (CreateOrder (symbol (config e)) sd MARKET (amt / 2 ^ j)))"
    and ok: "\<forall>j\<le>k. j < maxRetryAttempts e \<and> minTradeAmount e \<le> amt / 2 ^ j"
  shows "\<exists>e'. marketEntryLoop ex sd amt 0 e = marketEntryLoop ex sd (amt / 2 ^ k) k e'
     \<and> exchangeCalls e' = exchangeCalls e @ map (\<lambda>j. CreateOrder (symbol (config e)) sd MARKET (amt / 2 ^ j)) [0..<k]
     \<and> currentLossLimit e' = currentLossLimit e / 2 ^ k
     \<and> currentTradeAmount e' = currentTradeAmount e
     \<and> config e' = config e \<and> minTradeAmount e' = minTradeAmount e
     \<and> maxRetryAttempts e' = maxRetryAttempts e"
  using rej ok
proof (induction k)
  case 0
  show ?case by (rule exI [of _ e]) simp
next
  case (Suc k)
  have rej': "\<forall>j<k. isMarginRejection (ex (length (exchangeCalls e) + j)
                   (CreateOrder (symbol (config e)) sd MARKET (amt / 2 ^ j)))"
    using Suc.prems(1) by simp
  have ok': "\<forall>j\<le>k. j < maxRetryAttempts e \<and> minTradeAmount e \<le> amt / 2 ^ j"
    using Suc.prems(2) by simp
  obtain e' where e': "marketEntryLoop ex sd amt 0 e = marketEntryLoop ex sd (amt / 2 ^ k) k e'"
     "exchangeCalls e' = exchangeCalls e @ map (\<lambda>j. CreateOrder (symbol (config e)) sd MARKET (amt / 2 ^ j)) [0..<k]"
     "currentLossLimit e' = currentLossLimit e / 2 ^ k"
     "currentTradeAmount e' = currentTradeAmount e"
     "config e' = config e" "minTradeAmount e' = minTradeAmount e"
     "maxRetryAttempts e' = maxRetryAttempts e"
    using Suc.IH [OF rej' ok'] by blast
  have a1: "k < maxRetryAttempts e'" "minTradeAmount e' \<le> amt / 2 ^ k"
    using ok' e'(6,7) by auto
  have a2: "Suc k < maxRetryAttempts e'" "minTradeAmount e' \<le> amt / 2 ^ k / 2"
    using Suc.prems(2) e'(6,7) by (auto dest: spec [of _ "Suc k"])
  have "isMarginRejection (ex (length (exchangeCalls e')) (CreateOrder (symbol (config e')) sd MARKET (amt / 2 ^ k)))"
    using Suc.prems(1) e'(2,5) by simp
  then obtain err where err: "ex (length (exchangeCalls e')) (CreateOrder (symbol (config e')) sd MARKET (amt / 2 ^ k)) = Inl err"
      "isInsufficientMarginError err"
    by (auto simp: isMarginRejection_def split: sum.splits)
  have half: "amt / 2 ^ k / 2 = amt / 2 ^ Suc k" by simp
  have step: "marketEntryLoop ex sd (amt / 2 ^ k) k e'
      = marketEntryLoop ex sd (amt / 2 ^ Suc k) (Suc k) (afterRejection sd (amt / 2 ^ k) k e')"
    using loop_margin_retry [where ex = ex and sd = sd, OF a1 err a2] unfolding half .
  show ?case
  proof (rule exI [of _ "afterRejection sd (amt / 2 ^ k) k e'"], intro conjI)
    show "marketEntryLoop ex sd amt 0 e
        = marketEntryLoop ex sd (amt / 2 ^ Suc k) (Suc k) (afterRejection sd (amt / 2 ^ k) k e')"
      using e'(1) step by (rule trans)
    show "exchangeCalls (afterRejection sd (amt / 2 ^ k) k e')
        = exchangeCalls e @ map (\<lambda>j. CreateOrder (symbol (config e)) sd MARKET (amt / 2 ^ j)) [0..<Suc k]"
      using e'(2,5) by (simp add: afterRejection_fields)
    show "currentLossLimit (afterRejection sd (amt / 2 ^ k) k e') = currentLossLimit e / 2 ^ Suc k"
      using e'(3) by (simp add: afterRejection_fields)
    show "currentTradeAmount (afterRejection sd (amt / 2 ^ k) k e') = currentTradeAmount e"
      using e'(4) by (simp add: afterRejection_fields)
    show "config (afterRejection sd (amt / 2 ^ k) k e') = config e"
      using e'(5) by (simp add: afterRejection_fields)
    show "minTradeAmount (afterRejection sd (amt / 2 ^ k) k e') = minTradeAmount e"
      using e'(6) by (simp add: afterRejection_fields)
    show "maxRetryAttempts (afterRejection sd (amt / 2 ^ k) k e') = maxRetryAttempts e"
      using e'(7) by (simp add: afterRejection_fields)
  qed
qed

lemma marketEntry_prefix:
  assumes "marginRejected ex e sd k"
    and "retriesAllowed (maxRetryAttempts e) (minTradeAmount e) (currentTradeAmount e) k"
  shows "\<exists>e'. marketEntry ex sd e = marketEntryLoop ex sd (currentTradeAmount e / 2 ^ k) k e'
     \<and> exchangeCalls e' = exchangeCalls e @ map (orderRequest e sd) [0..<k]
     \<and> currentLossLimit e' = currentLossLimit e / 2 ^ k
     \<and> currentTradeAmount e' = currentTradeAmount e
     \<and> config e' = config e \<and> minTradeAmount e' = minTradeAmount e
     \<and> maxRetryAttempts e' = maxRetryAttempts e
     \<and> k < maxRetryAttempts e' \<and> minTradeAmount e' \<le> currentTradeAmount e / 2 ^ k"
proof -
  have rej: "\<forall>j<k. isMarginRejection (ex (length (exchangeCalls e) + j)
                   (CreateOrder (symbol (config e)) sd MARKET (currentTradeAmount e / 2 ^ j)))"
    using assms(1) by (simp add: marginRejected_def list_all_iff orderRequest_def)
  have ok: "\<forall>j\<le>k. j < maxRetryAttempts e \<and> minTradeAmount e \<le> currentTradeAmount e / 2 ^ j"
  proof (intro allI impI)
    fix j assume "j \<le> k"
    then have "j \<in> set [0..<Suc k]" by auto
    then show "j < maxRetryAttempts e \<and> minTradeAmount e \<le> currentTradeAmount e / 2 ^ j"
      using assms(2) unfolding retriesAllowed_def list_all_iff by blast
  qed
  have eq: "map (orderRequest e sd) [0..<k]
      = map (\<lambda>j. CreateOrder (symbol (config e)) sd MARKET (currentTradeAmount e / 2 ^ j)) [0..<k]"
    by (simp add: orderRequest_def)
  obtain e' where e': "marketEntryLoop ex sd (currentTradeAmount e) 0 e
        = marketEntryLoop ex sd (currentTradeAmount e / 2 ^ k) k e'"
     "exchangeCalls e' = exchangeCalls e @ map (\<lambda>j. CreateOrder (symbol (config e)) sd MARKET (currentTradeAmount e / 2 ^ j)) [0..<k]"
     "currentLossLimit e' = currentLossLimit e / 2 ^ k"
     "currentTradeAmount e' = currentTradeAmount e"
     "config e' = config e" "minTradeAmount e' = minTradeAmount e"
     "maxRetryAttempts e' = maxRetryAttempts e"
    using marketEntryLoop_prefix [OF rej ok] by blast
  have "k < maxRetryAttempts e' \<and> minTradeAmount e' \<le> currentTradeAmount e / 2 ^ k"
    using ok e'(6,7) by auto
  then show ?thesis
    unfolding marketEntry_def eq using e' by blast
qed

lemma marketEntry_success:
  assumes "marginRejected ex e sd k"
    and "retriesAllowed (maxRetryAttempts e) (minTradeAmount e) (currentTradeAmount e) k"
    and "ex (length (exchangeCalls e) + k) (orderRequest e sd k) = Inr oid"
  shows "fst (marketEntry ex sd e) = Inr ()
     \<and> exchangeCalls (snd (marketEntry ex sd e)) = exchangeCalls e @ map (orderRequest e sd) [0..<Suc k]
     \<and> currentTradeAmount (snd (marketEntry ex sd e)) = currentTradeAmount e / 2 ^ k
     \<and> currentLossLimit (snd (marketEntry ex sd e)) = currentLossLimit e / 2 ^ k"
proof -
  obtain e' where e': "marketEntry ex sd e = marketEntryLoop ex sd (currentTradeAmount e / 2 ^ k) k e'"
     "exchangeCalls e' = exchangeCalls e @ map (orderRequest e sd) [0..<k]"
     "currentLossLimit e' = currentLossLimit e / 2 ^ k"
     "currentTradeAmount e' = currentTradeAmount e"
     "config e' = config e"
     "k < maxRetryAttempts e'" "minTradeAmount e' \<le> currentTradeAmount e / 2 ^ k"
    using marketEntry_prefix [OF assms(1,2)] by blast
  have r: "ex (length (exchangeCalls e')) (CreateOrder (symbol (config e')) sd MARKET (currentTradeAmount e / 2 ^ k)) = Inr oid"
    using assms(3) e'(2,5) by (simp add: orderRequest_def)
  show ?thesis
    unfolding e'(1) loop_success [where ex = ex and sd = sd, OF e'(6,7) r]
    using e'(2,3,5) by (simp add: pushLog_def orderRequest_def)
qed

lemma marketEntry_other_error:
  assumes "marginRejected ex e sd k"
    and "retriesAllowed (maxRetryAttempts e) (minTradeAmount e) (currentTradeAmount e) k"
    and "ex (length (exchangeCalls e) + k) (orderRequest e sd k) = Inl err"
    and "\<not> isInsufficientMarginError err"
  shows "fst (marketEntry ex sd e) = Inl err
     \<and> exchangeCalls (snd (marketEntry ex sd e)) = exchangeCalls e @ map (orderRequest e sd) [0..<Suc k]
     \<and> currentTradeAmount (snd (marketEntry ex sd e)) = currentTradeAmount e
     \<and> currentLossLimit (snd (marketEntry ex sd e)) = currentLossLimit e / 2 ^ k"
proof -
  obtain e' where e': "marketEntry ex sd e = marketEntryLoop ex sd (currentTradeAmount e / 2 ^ k) k e'"
     "exchangeCalls e' = exchangeCalls e @ map (orderRequest e sd) [0..<k]"
     "currentLossLimit e' = currentLossLimit e / 2 ^ k"
     "currentTradeAmount e' = currentTradeAmount e"
     "config e' = config e"
     "k < maxRetryAttempts e'" "minTradeAmount e' \<le> currentTradeAmount e / 2 ^ k"
    using marketEntry_prefix [OF assms(1,2)] by blast
  have r: "ex (length (exchangeCalls e')) (CreateOrder (symbol (config e')) sd MARKET (currentTradeAmount e / 2 ^ k)) = Inl err"
    using assms(3) e'(2,5) by (simp add: orderRequest_def)
  show ?thesis
    unfolding e'(1) loop_other_error [where ex = ex and sd = sd, OF e'(6,7) r assms(4)]
    using e'(2,3,4,5) by (simp add: orderRequest_def)
qed

lemma marketEntry_stop:
  assumes "marginRejected ex e sd k"
    and "retriesAllowed (maxRetryAttempts e) (minTradeAmount e) (currentTradeAmount e) k"
    and "ex (length (exchangeCalls e) + k) (orderRequest e sd k) = Inl err"
    and "isInsufficientMarginError err"
    and "\<not> (Suc k < maxRetryAttempts e \<and> minTradeAmount e \<le> currentTradeAmount e / 2 ^ Suc k)"
  shows "fst (marketEntry ex sd e) = Inl err
     \<and> exchangeCalls (snd (marketEntry ex sd e)) = exchangeCalls e @ map (orderRequest e sd) [0..<Suc k]
     \<and> currentTradeAmount (snd (marketEntry ex sd e)) = currentTradeAmount e
     \<and> currentLossLimit (snd (marketEntry ex sd e)) = currentLossLimit e / 2 ^ Suc k"
proof -
  obtain e' where e': "marketEntry ex sd e = marketEntryLoop ex sd (currentTradeAmount e / 2 ^ k) k e'"
     "exchangeCalls e' = exchangeCalls e @ map (orderRequest e sd) [0..<k]"
     "currentLossLimit e' = currentLossLimit e / 2 ^ k"
     "currentTradeAmount e' = currentTradeAmount e"
     "config e' = config e"
     "k < maxRetryAttempts e'" "minTradeAmount e' \<le> currentTradeAmount e / 2 ^ k"
     "minTradeAmount e' = minTradeAmount e" "maxRetryAttempts e' = maxRetryAttempts e"
    using marketEntry_prefix [OF assms(1,2)] by blast
  have r: "ex (length (exchangeCalls e')) (CreateOrder (symbol (config e')) sd MARKET (currentTradeAmount e / 2 ^ k)) = Inl err"
    using assms(3) e'(2,5) by (simp add: orderRequest_def)
  have half: "currentTradeAmount e / 2 ^ k / 2 = currentTradeAmount e / 2 ^ Suc k" by simp
  have s: "\<not> (Suc k < maxRetryAttempts e' \<and> minTradeAmount e' \<le> currentTradeAmount e / 2 ^ k / 2)"
    unfolding half e'(8,9) using assms(5) .
  show ?thesis
    unfolding e'(1) loop_margin_stop [where ex = ex and sd = sd, OF e'(6,7) r assms(4) s]
    using e'(2,3,4,5) by (simp add: afterRejection_fields orderRequest_def)
qed

text \<open>
  Claim C3, as stated, fails. The claim takes one amount \<open>A\<close> both for the sequence of
  attempted amounts \<open>A / 2^k\<close> and for the floor \<open>A / 128\<close>. In the code an entry starts
  from the current trade amount, which a successful entry at a reduced size lowers for
  good, while the floor is fixed by the constructor at \<open>config.tradeAmount / 128\<close>. With
  a configured amount of 128, an entry that is accepted at 64 after one rejection leaves
  a current amount of 64. The next entry, rejected for insufficient margin throughout,
  starts at 64, not at 128, and requests 64, 32, 16, 8, 4, 2 and 1; it stops after the
  seventh rejection, with fewer than 10 attempts made and the next amount
  \<open>64 / 2^7\<close> not below \<open>64 / 128\<close>, because that amount is below the floor
  \<open>128 / 128\<close>.
\<close>

theorem margin_retry_floor_counterexample:
  "tradeAmount (config exampleReducedEngine) = 128
   \<and> currentTradeAmount exampleReducedEngine = 64
   \<and> minTradeAmount exampleReducedEngine = 1
   \<and> fst (marketEntry (rejectFirst 100) BUY exampleReducedEngine) = Inl (ExchangeError False False True)
   \<and> drop (length (exchangeCalls exampleReducedEngine))
        (exchangeCalls (snd (marketEntry (rejectFirst 100) BUY exampleReducedEngine)))
       = map (CreateOrder ''BTCUSDT'' BUY MARKET) [64, 32, 16, 8, 4, 2, 1]
   \<and> \<not> ((64::real) / 2 ^ 7 < 64 / 128)
   \<and> (7::nat) < 10"
  by (simp add: exampleReducedEngine_def exampleDepthEngine_def newDepthImbalanceEngine_def
      exampleDepthConfig_def rejectFirst_def newRateLimitController_def createEmptyStats_def
      createEmptyHourlyStats_def marketEntry_def marketEntryLoop.simps callExchange_def
      pushLog_def Let_def)

text \<open>
  Claim C3, amended. Let an entry start from the engine's current trade amount \<open>A\<close> and
  current loss limit \<open>L\<close>, in an engine whose maximal number of attempts is 10 and whose
  floor is \<open>config.tradeAmount / 128\<close>, as the constructor sets them and \<open>marketEntry\<close>
  leaves them. Suppose the exchange rejects the first \<open>k\<close> requests for insufficient
  margin and the loop's condition for going on (fewer than 10 attempts, amount at least
  the floor) holds at the attempts \<open>0..k\<close>. Then the requests made are for
  \<open>A, A/2, ..., A/2^k\<close>, and: if request \<open>k\<close> is accepted the entry returns with current
  amount \<open>A/2^k\<close> and loss limit \<open>L/2^k\<close>; if it fails with an error that is not an
  insufficient-margin error the entry ends with that error at once, with no further
  request; if it is rejected for insufficient margin and \<open>k + 1\<close> reaches 10 or
  \<open>A/2^(k+1)\<close> is below the floor, the entry ends with that error, with no further request
  and loss limit \<open>L/2^(k+1)\<close>.
\<close>

theorem margin_retry_entry:
  "(maxRetryAttempts e1 = 10 \<and> minTradeAmount e1 = tradeAmount (config e1) / 128
    \<and> marginRejected ex1 e1 sd1 k1
    \<and> retriesAllowed 10 (tradeAmount (config e1) / 128) (currentTradeAmount e1) k1
    \<and> ex1 (length (exchangeCalls e1) + k1) (orderRequest e1 sd1 k1) = Inr oid \<longrightarrow>
      fst (marketEntry ex1 sd1 e1) = Inr ()
      \<and> exchangeCalls (snd (marketEntry ex1 sd1 e1)) = exchangeCalls e1 @ map (orderRequest e1 sd1) [0..<Suc k1]
      \<and> currentTradeAmount (snd (marketEntry ex1 sd1 e1)) = currentTradeAmount e1 / 2 ^ k1
      \<and> currentLossLimit (snd (marketEntry ex1 sd1 e1)) = currentLossLimit e1 / 2 ^ k1)
   \<and> (maxRetryAttempts e2 = 10 \<and> minTradeAmount e2 = tradeAmount (config e2) / 128
    \<and> marginRejected ex2 e2 sd2 k2
    \<and> retriesAllowed 10 (tradeAmount (config e2) / 128) (currentTradeAmount e2) k2
    \<and> ex2 (length (exchangeCalls e2) + k2) (orderRequest e2 sd2 k2) = Inl err2
    \<and> \<not> isInsufficientMarginError err2 \<longrightarrow>
      fst (marketEntry ex2 sd2 e2) = Inl err2
      \<and> exchangeCalls (snd (marketEntry ex2 sd2 e2)) = exchangeCalls e2 @ map (orderRequest e2 sd2) [0..<Suc k2]
      \<and> currentTradeAmount (snd (marketEntry ex2 sd2 e2)) = currentTradeAmount e2
      \<and> currentLossLimit (snd (marketEntry ex2 sd2 e2)) = currentLossLimit e2 / 2 ^ k2)
   \<and> (maxRetryAttempts e3 = 10 \<and> minTradeAmount e3 = tradeAmount (config e3) / 128
    \<and> marginRejected ex3 e3 sd3 k3
    \<and> retriesAllowed 10 (tradeAmount (config e3) / 128) (currentTradeAmount e3) k3
    \<and> ex3 (length (exchangeCalls e3) + k3) (orderRequest e3 sd3 k3) = Inl err3
    \<and> isInsufficientMarginError err3
    \<and> \<not> (Suc k3 < 10 \<and> tradeAmount (config e3) / 128 \<le> currentTradeAmount e3 / 2 ^ Suc k3) \<longrightarrow>
      fst (marketEntry ex3 sd3 e3) = Inl err3
      \<and> exchangeCalls (snd (marketEntry ex3 sd3 e3)) = exchangeCalls e3 @ map (orderRequest e3 sd3) [0..<Suc k3]
      \<and> currentTradeAmount (snd (marketEntry ex3 sd3 e3)) = currentTradeAmount e3
      \<and> currentLossLimit (snd (marketEntry ex3 sd3 e3)) = currentLossLimit e3 / 2 ^ Suc k3)
   \<and> maxRetryAttempts (newDepthImbalanceEngine cfg t) = 10
   \<and> minTradeAmount (newDepthImbalanceEngine cfg t) = tradeAmount cfg / 128
   \<and> currentTradeAmount (newDepthImbalanceEngine cfg t) = tradeAmount cfg
   \<and> currentLossLimit (newDepthImbalanceEngine cfg t) = lossLimit cfg
   \<and> maxRetryAttempts (snd (marketEntry ex4 sd4 e4)) = maxRetryAttempts e4
   \<and> minTradeAmount (snd (marketEntry ex4 sd4 e4)) = minTradeAmount e4
   \<and> config (snd (marketEntry ex4 sd4 e4)) = config e4"
proof (intro conjI impI)
  assume h: "maxRetryAttempts e1 = 10 \<and> minTradeAmount e1 = tradeAmount (config e1) / 128
    \<and> marginRejected ex1 e1 sd1 k1
    \<and> retriesAllowed 10 (tradeAmount (config e1) / 128) (currentTradeAmount e1) k1
    \<and> ex1 (length (exchangeCalls e1) + k1) (orderRequest e1 sd1 k1) = Inr oid"
  have m: "maxRetryAttempts e1 = 10" "minTradeAmount e1 = tradeAmount (config e1) / 128"
    using h by blast+
  have ra: "retriesAllowed 10 (tradeAmount (config e1) / 128) (currentTradeAmount e1) k1"
    using h by blast
  have ok: "retriesAllowed (maxRetryAttempts e1) (minTradeAmount e1) (currentTradeAmount e1) k1"
    unfolding m using ra .
  note r = marketEntry_success [where ex = ex1 and sd = sd1 and e = e1 and k = k1 and oid = oid, OF _ ok]
  show "fst (marketEntry ex1 sd1 e1) = Inr ()" using r h by blast
  show "exchangeCalls (snd (marketEntry ex1 sd1 e1)) = exchangeCalls e1 @ map (orderRequest e1 sd1) [0..<Suc k1]"
    using r h by blast
  show "currentTradeAmount (snd (marketEntry ex1 sd1 e1)) = currentTradeAmount e1 / 2 ^ k1"
    using r h by blast
  show "currentLossLimit (snd (marketEntry ex1 sd1 e1)) = currentLossLimit e1 / 2 ^ k1"
    using r h by blast
next
  assume h: "maxRetryAttempts e2 = 10 \<and> minTradeAmount e2 = tradeAmount (config e2) / 128
    \<and> marginRejected ex2 e2 sd2 k2
    \<and> retriesAllowed 10 (tradeAmount (config e2) / 128) (currentTradeAmount e2) k2
    \<and> ex2 (length (exchangeCalls e2) + k2) (orderRequest e2 sd2 k2) = Inl err2
    \<and> \<not> isInsufficientMarginError err2"
  have m: "maxRetryAttempts e2 = 10" "minTradeAmount e2 = tradeAmount (config e2) / 128"
    using h by blast+
  have ra: "retriesAllowed 10 (tradeAmount (config e2) / 128) (currentTradeAmount e2) k2"
    using h by blast
  have ok: "retriesAllowed (maxRetryAttempts e2) (minTradeAmount e2) (currentTradeAmount e2) k2"
    unfolding m using ra .
  note r = marketEntry_other_error [where ex = ex2 and sd = sd2 and e = e2 and k = k2 and err = err2, OF _ ok]
  show "fst (marketEntry ex2 sd2 e2) = Inl err2" using r h by blast
  show "exchangeCalls (snd (marketEntry ex2 sd2 e2)) = exchangeCalls e2 @ map (orderRequest e2 sd2) [0..<Suc k2]"
    using r h by blast
  show "currentTradeAmount (snd (marketEntry ex2 sd2 e2)) = currentTradeAmount e2"
    using r h by blast
  show "currentLossLimit (snd (marketEntry ex2 sd2 e2)) = currentLossLimit e2 / 2 ^ k2"
    using r h by blast
next
  assume h: "maxRetryAttempts e3 = 10 \<and> minTradeAmount e3 = tradeAmount (config e3) / 128
    \<and> marginRejected ex3 e3 sd3 k3
    \<and> retriesAllowed 10 (tradeAmount (config e3) / 128) (currentTradeAmount e3) k3
    \<and> ex3 (length (exchangeCalls e3) + k3) (orderRequest e3 sd3 k3) = Inl err3
    \<and> isInsufficientMarginError err3
    \<and> \<not> (Suc k3 < 10 \<and> tradeAmount (config e3) / 128 \<le> currentTradeAmount e3 / 2 ^ Suc k3)"
  have m: "maxRetryAttempts e3 = 10" "minTradeAmount e3 = tradeAmount (config e3) / 128"
    using h by blast+
  have ra: "retriesAllowed 10 (tradeAmount (config e3) / 128) (currentTradeAmount e3) k3"
    using h by blast
  have ok: "retriesAllowed (maxRetryAttempts e3) (minTradeAmount e3) (currentTradeAmount e3) k3"
    unfolding m using ra .
  have st: "\<not> (Suc k3 < 10 \<and> tradeAmount (config e3) / 128 \<le> currentTradeAmount e3 / 2 ^ Suc k3)"
    using h by blast
  have stop: "\<not> (Suc k3 < maxRetryAttempts e3 \<and> minTradeAmount e3 \<le> currentTradeAmount e3 / 2 ^ Suc k3)"
    unfolding m using st .
  note r = marketEntry_stop [where ex = ex3 and sd = sd3 and e = e3 and k = k3 and err = err3, OF _ ok _ _ stop]
  show "fst (marketEntry ex3 sd3 e3) = Inl err3" using r h by blast
  show "exchangeCalls (snd (marketEntry ex3 sd3 e3)) = exchangeCalls e3 @ map (orderRequest e3 sd3) [0..<Suc k3]"
    using r h by blast
  show "currentTradeAmount (snd (marketEntry ex3 sd3 e3)) = currentTradeAmount e3"
    using r h by blast
  show "currentLossLimit (snd (marketEntry ex3 sd3 e3)) = currentLossLimit e3 / 2 ^ Suc k3"
    using r h by blast
next
  show "maxRetryAttempts (newDepthImbalanceEngine cfg t) = 10"
    by (simp add: newDepthImbalanceEngine_def)
  show "minTradeAmount (newDepthImbalanceEngine cfg t) = tradeAmount cfg / 128"
    by (simp add: newDepthImbalanceEngine_def)
  show "currentTradeAmount (newDepthImbalanceEngine cfg t) = tradeAmount cfg"
    by (simp add: newDepthImbalanceEngine_def)
  show "currentLossLimit (newDepthImbalanceEngine cfg t) = lossLimit cfg"
    by (simp add: newDepthImbalanceEngine_def)
  show "maxRetryAttempts (snd (marketEntry ex4 sd4 e4)) = maxRetryAttempts e4"
    by (simp add: marketEntry_def marketEntryLoop_readonly)
  show "minTradeAmount (snd (marketEntry ex4 sd4 e4)) = minTradeAmount e4"
    by (simp add: marketEntry_def marketEntryLoop_readonly)
  show "config (snd (marketEntry ex4 sd4 e4)) = config e4"
    by (simp add: marketEntry_def marketEntryLoop_readonly)
qed


theorem margin_retry_entry_witness:
  "marginRejected (rejectFirst 1) exampleDepthEngine BUY 1
   \<and> retriesAllowed 10 (tradeAmount (config exampleDepthEngine) / 128)
        (currentTradeAmount exampleDepthEngine) 1
   \<and> fst (marketEntry (rejectFirst 1) BUY exampleDepthEngine) = Inr ()
   \<and> exchangeCalls (snd (marketEntry (rejectFirst 1) BUY exampleDepthEngine))
       = [CreateOrder ''BTCUSDT'' BUY MARKET 128, CreateOrder ''BTCUSDT'' BUY MARKET 64]
   \<and> currentTradeAmount (snd (marketEntry (rejectFirst 1) BUY exampleDepthEngine)) = 64
   \<and> currentLossLimit (snd (marketEntry (rejectFirst 1) BUY exampleDepthEngine)) = 2
   \<and> \<not> isInsufficientMarginError (ExchangeError False False False)
   \<and> fst (marketEntry failingExchange SELL exampleDepthEngine) = Inl (ExchangeError False False False)
   \<and> exchangeCalls (snd (marketEntry failingExchange SELL exampleDepthEngine))
       = [CreateOrder ''BTCUSDT'' SELL MARKET 128]
   \<and> currentLossLimit (snd (marketEntry failingExchange SELL exampleDepthEngine)) = 4
   \<and> marginRejected (rejectFirst 100) exampleReducedEngine BUY 7
   \<and> retriesAllowed 10 (tradeAmount (config exampleReducedEngine) / 128)
        (currentTradeAmount exampleReducedEngine) 6
   \<and> \<not> (tradeAmount (config exampleReducedEngine) / 128
          \<le> currentTradeAmount exampleReducedEngine / 2 ^ 7)
   \<and> fst (marketEntry (rejectFirst 100) BUY exampleReducedEngine) = Inl (ExchangeError False False True)
   \<and> length (exchangeCalls (snd (marketEntry (rejectFirst 100) BUY exampleReducedEngine)))
       = length (exchangeCalls exampleReducedEngine) + 7
   \<and> currentLossLimit (snd (marketEntry (rejectFirst 100) BUY exampleReducedEngine)) = 1 / 64"
  using margin_retry_entry
    [where ?e1.0 = exampleDepthEngine and ?ex1.0 = "rejectFirst 1" and ?sd1.0 = BUY and ?k1.0 = 1
       and oid = 1
       and ?e2.0 = exampleDepthEngine and ?ex2.0 = failingExchange and ?sd2.0 = SELL and ?k2.0 = 0
       and ?err2.0 = "ExchangeError False False False"
       and ?e3.0 = exampleReducedEngine and ?ex3.0 = "rejectFirst 100" and ?sd3.0 = BUY and ?k3.0 = 6
       and ?err3.0 = "ExchangeError False False True"
       and cfg = exampleDepthConfig and t = 0
       and ?e4.0 = exampleDepthEngine and ?ex4.0 = "rejectFirst 1" and ?sd4.0 = BUY]
  by (simp add: exampleReducedEngine_def exampleDepthEngine_def newDepthImbalanceEngine_def
      exampleDepthConfig_def rejectFirst_def failingExchange_def newRateLimitController_def
      createEmptyStats_def createEmptyHourlyStats_def marketEntry_def marketEntryLoop.simps
      callExchange_def pushLog_def Let_def marginRejected_def retriesAllowed_def
      isMarginRejection_def orderRequest_def upt_rec)

section \<open>Properties of the order planner\<close>

lemma planEntry_kept:
  assumes "ord \<in> set openOrders" "matchesWithin tolerance ord d"
  shows "planEntry openOrders tolerance d = ([], [])"
proof -
  have "find (\<lambda>x. matchesWithin tolerance x d) openOrders \<noteq> None"
    using assms by (auto simp: find_None_iff)
  then show ?thesis by (auto simp: planEntry_def)
qed

text \<open>
  Claim C7. For every tolerance, every list of desired orders and every list of open
  orders in which each desired entry has an open order of its side and reduce-only flag
  within tolerance of its price, and each open order has a desired entry of its side and
  flag (within tolerance or not), the planner returns an empty cancel list and an empty
  place list.
\<close>

theorem order_plan_idempotent:
  assumes h1: "\<forall>d\<in>set targets. \<exists>ord\<in>set openOrders. matchesWithin tolerance ord d"
    and h2: "\<forall>ord\<in>set openOrders. \<exists>d\<in>set targets. sameKey ord d"
  shows "makeOrderPlan openOrders targets tolerance = ([], [])"
proof -
  have k: "\<forall>d\<in>set targets. planEntry openOrders tolerance d = ([], [])"
    using h1 planEntry_kept by blast
  have c1: "concat (map fst (map (planEntry openOrders tolerance) targets)) = []"
    using k by simp
  have c2: "concat (map snd (map (planEntry openOrders tolerance) targets)) = []"
    using k by simp
  have c3: "filter (\<lambda>ord. \<not> list_ex (sameKey ord) targets) openOrders = []"
    using h2 by (auto simp: filter_empty_conv list_ex_iff)
  show ?thesis using c1 c2 c3 by (simp add: makeOrderPlan_def Let_def)
qed

theorem order_plan_idempotent_witness:
  "matchesWithin 0 (openBuyAt 1 100) (desiredBuyAt 100)
   \<and> matchesWithin 0 (openBuyAt 2 200) (desiredBuyAt 200)
   \<and> matchesWithin (3 / 10) (openSellAt 3 (501 / 5)) (desiredSellAt (1003 / 10))
   \<and> makeOrderPlan [openBuyAt 1 100, openBuyAt 2 200] [desiredBuyAt 200, desiredBuyAt 100] 0
       = ([], [])
   \<and> makeOrderPlan [openSellAt 3 (501 / 5)] [desiredSellAt (1003 / 10)] (3 / 10) = ([], [])"
proof -
  have m1: "matchesWithin 0 (openBuyAt 1 100) (desiredBuyAt 100)"
    by (simp add: matchesWithin_def sameKey_def openBuyAt_def desiredBuyAt_def)
  have m2: "matchesWithin 0 (openBuyAt 2 200) (desiredBuyAt 200)"
    by (simp add: matchesWithin_def sameKey_def openBuyAt_def desiredBuyAt_def)
  have m3: "matchesWithin (3 / 10) (openSellAt 3 (501 / 5)) (desiredSellAt (1003 / 10))"
    by (simp add: matchesWithin_def sameKey_def openSellAt_def desiredSellAt_def)
  have a1: "\<forall>d\<in>set [desiredBuyAt 200, desiredBuyAt 100].
           \<exists>ord\<in>set [openBuyAt 1 100, openBuyAt 2 200]. matchesWithin 0 ord d"
    using m1 m2 by simp
  have a2: "\<forall>ord\<in>set [openBuyAt 1 100, openBuyAt 2 200].
           \<exists>d\<in>set [desiredBuyAt 200, desiredBuyAt 100]. sameKey ord d"
    using m1 m2 by (simp add: matchesWithin_def)
  have b1: "\<forall>d\<in>set [desiredSellAt (1003 / 10)].
           \<exists>ord\<in>set [openSellAt 3 (501 / 5)]. matchesWithin (3 / 10) ord d"
    using m3 by simp
  have b2: "\<forall>ord\<in>set [openSellAt 3 (501 / 5)].
           \<exists>d\<in>set [desiredSellAt (1003 / 10)]. sameKey ord d"
    using m3 by (simp add: matchesWithin_def)
  show ?thesis
    using m1 m2 m3 order_plan_idempotent [OF a1 a2] order_plan_idempotent [OF b1 b2] by simp
qed

end
